theory Spec2Isabelle
  imports Main "HOL-Library.AList" "HOL-Library.Stream"
begin

section \<open>The scheduler's events (client/torrent/scheduler/events.go)\<close>

text \<open>
  The file under verification defines the events of the torrent scheduler: each event
  has a method \<open>Apply\<close> that moves the \<open>Scheduler\<close> into a new state. While an event
  is applying it is the only accessor of the scheduler, so every \<open>Apply\<close> is a function
  from the state before to the state after.

  What an \<open>Apply\<close> does besides changing the scheduler's tables (writing a log line,
  sending on an error channel, closing a connection, starting a goroutine) is appended,
  in program order, to the field \<open>effects\<close> of the state.
\<close>

subsection \<open>Identifiers, time and errors\<close>

type_synonym peerID = string
type_synonym infoHash = string

text \<open>
  A \<open>time.Time\<close> is an instant in nanoseconds, a \<open>time.Duration\<close> a signed 64-bit count
  of nanoseconds. \<open>Time.Sub\<close> saturates at the least and greatest duration.
\<close>

type_synonym time = int
type_synonym duration = int

definition minDuration :: duration where
  "minDuration = - (2 ^ 63)"

definition maxDuration :: duration where
  "maxDuration = 2 ^ 63 - 1"

definition time_Sub :: "time \<Rightarrow> time \<Rightarrow> duration" where
  "time_Sub t u =
     (if t - u > maxDuration then maxDuration
      else if t - u < minDuration then minDuration
      else t - u)"

text \<open>
  Modelled from the spec: \<open>timeutil.MostRecent\<close> is not part of the file; the spec
  writes it as the maximum of its arguments. Every call in the file passes at least one
  time; the empty call is given the zero instant.
\<close>

fun MostRecent :: "time list \<Rightarrow> time" where
  "MostRecent [] = 0"
| "MostRecent (t # ts) = fold max ts t"

text \<open>
  The scheduler reads its clock with \<open>s.clock.Now()\<close>, and two calls need not return
  the same time. A clock is the stream of the readings that the calls return, in the
  order of the calls: \<open>Now()\<close> returns the head of the stream and leaves its tail.
\<close>

type_synonym clock = "time stream"

datatype error =
    errTorrentAtCapacity
  | errAlreadyPending
  | errAlreadyActive
  | errBlacklisted
  | errBlacklistLiveConn
  | errInvalidPeerID

subsection \<open>The data the events read\<close>

record torrent =
  torrent_InfoHash :: infoHash

text \<open>
  A \<open>torlib.PeerInfo\<close> as the tracker returns it: the identifier is still a string,
  and the conversion \<open>int(p.Port)\<close> of the port keeps its value.
\<close>

record peerInfo =
  peer_PeerID :: string
  peer_IP :: string
  peer_Port :: int

text \<open>
  A \<open>conn\<close> and a \<open>dispatcher\<close> are represented by the attributes the events read;
  \<open>LastGoodPieceReceived()\<close>, \<open>LastPieceSent()\<close>, \<open>LastConnRemoved()\<close> and \<open>Empty()\<close>
  are the values these methods return while the event applies.
\<close>

record conn =
  conn_PeerID :: peerID
  conn_InfoHash :: infoHash
  conn_CreatedAt :: time
  conn_LastGoodPieceReceived :: time
  conn_LastPieceSent :: time

record dispatcher =
  Torrent :: torrent
  dispatcher_CreatedAt :: time
  LastConnRemoved :: time
  Empty :: bool

type_synonym chan = nat

record torrentControl =
  Dispatcher :: dispatcher
  Errors :: "chan list"
  Complete :: bool

text \<open>
  Modelled from the spec: \<open>newTorrentControl\<close> is defined outside the file; the spec
  gives the control it builds as \<open>{ dispatcher, Errors: [], Complete: false }\<close>.
\<close>

definition newTorrentControl :: "dispatcher \<Rightarrow> torrentControl" where
  "newTorrentControl d = \<lparr>Dispatcher = d, Errors = [], Complete = False\<rparr>"

record config =
  MaxConnsPerTorrent :: nat
  BlacklistDuration :: duration
  IdleConnTTL :: duration
  ConnTTL :: duration
  IdleSeederTTL :: duration

subsection \<open>Effects\<close>

datatype log_level = DebugLevel | InfoLevel | ErrorLevel

datatype effect =
    Log log_level string
  | Logf log_level string error
  | ChanSend chan "error option"
  | ConnClose conn
  | Go_initOutgoingConn peerID string int torrent

subsection \<open>Collaborators\<close>

text \<open>
  The connection state, the announce queue, the dispatcher factory and
  \<open>torlib.NewPeerID\<close> are used by the file and defined elsewhere. The events are
  therefore modelled over any implementation of the methods they call: \<open>'cs\<close> is the
  state of the \<open>connState\<close> object, \<open>'aq\<close> that of the \<open>announceQueue\<close>, and a method
  that can fail returns its error (\<open>None\<close> is Go's \<open>nil\<close>) next to the new state.
\<close>

record ('cs, 'aq) collaborators =
  NewPeerID :: "string \<Rightarrow> error + peerID"
  dispatcherFactory_New :: "torrent \<Rightarrow> dispatcher"
  AddPending :: "peerID \<Rightarrow> infoHash \<Rightarrow> 'cs \<Rightarrow> error option \<times> 'cs"
  DeleteActive :: "conn \<Rightarrow> 'cs \<Rightarrow> 'cs"
  Blacklist :: "peerID \<Rightarrow> infoHash \<Rightarrow> 'cs \<Rightarrow> error option \<times> 'cs"
  ActiveConns :: "'cs \<Rightarrow> conn list"
  InitCapacity :: "infoHash \<Rightarrow> 'cs \<Rightarrow> 'cs"
  announceQueue_Add :: "dispatcher \<Rightarrow> 'aq \<Rightarrow> 'aq"
  announceQueue_Ready :: "dispatcher \<Rightarrow> 'aq \<Rightarrow> 'aq"
  announceQueue_Done :: "dispatcher \<Rightarrow> 'aq \<Rightarrow> 'aq"

subsection \<open>The scheduler\<close>

text \<open>
  \<open>torrentControls\<close> is a Go map from info-hash to a pointer to the control. It is an
  association list here: a lookup is \<open>map_of\<close>, an assignment \<open>AList.update\<close>, \<open>delete\<close>
  is \<open>AList.delete\<close>, a write through the pointer is an update at the key, and \<open>range\<close>
  visits the entries in the order of the list (Go leaves the order open).
\<close>

record ('cs, 'aq) Scheduler =
  peerID :: peerID
  config :: config
  clock :: clock
  connState :: 'cs
  announceQueue :: 'aq
  torrentControls :: "(infoHash \<times> torrentControl) list"
  effects :: "effect list"

definition emit :: "effect \<Rightarrow> ('cs, 'aq) Scheduler \<Rightarrow> ('cs, 'aq) Scheduler" where
  "emit e s = s\<lparr>effects := effects s @ [e]\<rparr>"

text \<open>The call \<open>s.clock.Now()\<close>: the reading, and the scheduler with the clock read.\<close>

definition clock_Now :: "('cs, 'aq) Scheduler \<Rightarrow> time \<times> ('cs, 'aq) Scheduler" where
  "clock_Now s = (shd (clock s), s\<lparr>clock := stl (clock s)\<rparr>)"

text \<open>What an observer of the effects sees of one kind.\<close>

fun dials :: "effect list \<Rightarrow> (peerID \<times> string \<times> int \<times> torrent) list" where
  "dials [] = []"
| "dials (Go_initOutgoingConn pid ip port t # es) = (pid, ip, port, t) # dials es"
| "dials (_ # es) = dials es"

fun sends :: "effect list \<Rightarrow> (chan \<times> error option) list" where
  "sends [] = []"
| "sends (ChanSend c r # es) = (c, r) # sends es"
| "sends (_ # es) = sends es"

fun closes :: "effect list \<Rightarrow> conn list" where
  "closes [] = []"
| "closes (ConnClose c # es) = c # closes es"
| "closes (_ # es) = closes es"

subsection \<open>closedConnEvent\<close>

definition closedConnEvent_Apply ::
  "('cs, 'aq) collaborators \<Rightarrow> conn \<Rightarrow> ('cs, 'aq) Scheduler \<Rightarrow> ('cs, 'aq) Scheduler" where
  "closedConnEvent_Apply env c s =
     (let s1 = emit (Log DebugLevel ''Applying closed conn event'') s;
          s2 = s1\<lparr>connState := DeleteActive env c (connState s1)\<rparr>;
          (err, cs') = Blacklist env (conn_PeerID c) (conn_InfoHash c) (connState s2);
          s3 = s2\<lparr>connState := cs'\<rparr>
      in case err of
           Some e \<Rightarrow> emit (Logf InfoLevel ''Error blacklisting active conn: %s'' e) s3
         | None \<Rightarrow> s3)"

subsection \<open>announceResponseEvent\<close>

text \<open>
  The loop over \<open>e.peers\<close>, from the peer at the head of the list on. \<open>continue\<close> is the
  recursive call on the rest, \<open>break\<close> returns without it.
\<close>

fun announceResponse_peers ::
  "('cs, 'aq) collaborators \<Rightarrow> infoHash \<Rightarrow> torrentControl \<Rightarrow> peerInfo list \<Rightarrow>
   ('cs, 'aq) Scheduler \<Rightarrow> ('cs, 'aq) Scheduler" where
  "announceResponse_peers env h ctrl [] s = s"
| "announceResponse_peers env h ctrl (p # ps) s =
     (case NewPeerID env (peer_PeerID p) of
        Inl err \<Rightarrow>
          announceResponse_peers env h ctrl ps
            (emit (Logf ErrorLevel ''Error creating PeerID from announce response: %s'' err) s)
      | Inr pid \<Rightarrow>
          if pid = peerID s then announceResponse_peers env h ctrl ps s
          else
            (case AddPending env pid h (connState s) of
               (Some err, cs') \<Rightarrow>
                 if err = errTorrentAtCapacity then
                   emit (Log InfoLevel
                           ''Cannot open any more connections, torrent is at capacity'')
                        (s\<lparr>connState := cs'\<rparr>)
                 else
                   announceResponse_peers env h ctrl ps
                     (emit (Logf InfoLevel ''Cannot add pending conn: %s, skipping'' err)
                           (s\<lparr>connState := cs'\<rparr>))
             | (None, cs') \<Rightarrow>
                 announceResponse_peers env h ctrl ps
                   (emit (Go_initOutgoingConn pid (peer_IP p) (peer_Port p)
                            (Torrent (Dispatcher ctrl)))
                         (s\<lparr>connState := cs'\<rparr>))))"

definition announceResponseEvent_Apply ::
  "('cs, 'aq) collaborators \<Rightarrow> infoHash \<Rightarrow> peerInfo list \<Rightarrow>
   ('cs, 'aq) Scheduler \<Rightarrow> ('cs, 'aq) Scheduler" where
  "announceResponseEvent_Apply env infoHash peers s =
     (let s1 = emit (Log DebugLevel ''Applying announce response event'') s
      in case map_of (torrentControls s1) infoHash of
           None \<Rightarrow>
             emit (Log InfoLevel ''Dispatcher closed after announce response received'') s1
         | Some ctrl \<Rightarrow>
             announceResponse_peers env infoHash ctrl peers
               (s1\<lparr>announceQueue :=
                      announceQueue_Ready env (Dispatcher ctrl) (announceQueue s1)\<rparr>))"

subsection \<open>newTorrentEvent\<close>

definition newTorrentEvent_Apply ::
  "('cs, 'aq) collaborators \<Rightarrow> torrent \<Rightarrow> chan \<Rightarrow>
   ('cs, 'aq) Scheduler \<Rightarrow> ('cs, 'aq) Scheduler" where
  "newTorrentEvent_Apply env t errc s =
     (let s1 = emit (Log DebugLevel ''Applying new torrent event'') s;
          infoHash = torrent_InfoHash t;
          (ctrl, s2) =
            (case map_of (torrentControls s1) infoHash of
               None \<Rightarrow>
                 (let ctrl = newTorrentControl (dispatcherFactory_New env t);
                      sa = s1\<lparr>torrentControls :=
                                AList.update infoHash ctrl (torrentControls s1)\<rparr>;
                      sb = sa\<lparr>announceQueue :=
                                announceQueue_Add env (Dispatcher ctrl) (announceQueue sa)\<rparr>;
                      sc = sb\<lparr>connState := InitCapacity env infoHash (connState sb)\<rparr>
                  in (ctrl, sc))
             | Some ctrl \<Rightarrow> (ctrl, s1))
      in if Complete ctrl then emit (ChanSend errc None) s2
         else s2\<lparr>torrentControls :=
                   AList.update infoHash (ctrl\<lparr>Errors := Errors ctrl @ [errc]\<rparr>)
                     (torrentControls s2)\<rparr>)"

subsection \<open>completedDispatcherEvent\<close>

text \<open>The loop \<open>for _, errc := range ctrl.Errors { errc <- nil }\<close>.\<close>

fun send_nil_all :: "chan list \<Rightarrow> ('cs, 'aq) Scheduler \<Rightarrow> ('cs, 'aq) Scheduler" where
  "send_nil_all [] s = s"
| "send_nil_all (errc # errcs) s = send_nil_all errcs (emit (ChanSend errc None) s)"

definition completedDispatcherEvent_Apply ::
  "('cs, 'aq) collaborators \<Rightarrow> dispatcher \<Rightarrow>
   ('cs, 'aq) Scheduler \<Rightarrow> ('cs, 'aq) Scheduler" where
  "completedDispatcherEvent_Apply env d s =
     (let s1 = emit (Log DebugLevel ''Applying completed dispatcher event'') s;
          s2 = s1\<lparr>announceQueue := announceQueue_Done env d (announceQueue s1)\<rparr>;
          infoHash = torrent_InfoHash (Torrent d)
      in case map_of (torrentControls s2) infoHash of
           None \<Rightarrow> emit (Log ErrorLevel ''Completed dispatcher not found'') s2
         | Some ctrl \<Rightarrow>
             (let s3 = send_nil_all (Errors ctrl) s2
              in s3\<lparr>torrentControls :=
                       AList.update infoHash (ctrl\<lparr>Complete := True\<rparr>)
                         (torrentControls s3)\<rparr>))"

subsection \<open>preemptionTickEvent\<close>

text \<open>
  The first loop, over the snapshot \<open>s.connState.ActiveConns()\<close>. The clock is read
  for the test of idleness and, when that test fails, once more for the test of age.
\<close>

fun preempt_conns :: "conn list \<Rightarrow> ('cs, 'aq) Scheduler \<Rightarrow> ('cs, 'aq) Scheduler" where
  "preempt_conns [] s = s"
| "preempt_conns (c # cs) s =
     (let lastProgress =
            MostRecent [conn_CreatedAt c, conn_LastGoodPieceReceived c, conn_LastPieceSent c];
          (now1, s1) = clock_Now s
      in if time_Sub now1 lastProgress > IdleConnTTL (config s1) then
           preempt_conns cs
             (emit (ConnClose c) (emit (Log InfoLevel ''Closing idle conn'') s1))
         else
           (let (now2, s2) = clock_Now s1
            in if time_Sub now2 (conn_CreatedAt c) > ConnTTL (config s2) then
                 preempt_conns cs
                   (emit (ConnClose c) (emit (Log InfoLevel ''Closing expired conn'') s2))
               else preempt_conns cs s2))"

text \<open>
  The second loop, over the entries of \<open>s.torrentControls\<close>. The only entry the body
  deletes is the one being visited, so the entries still to come are those of the map
  as it was when the loop started. The clock is read once for every control that is
  complete and whose dispatcher is empty.
\<close>

fun preempt_torrents ::
  "(infoHash \<times> torrentControl) list \<Rightarrow> ('cs, 'aq) Scheduler \<Rightarrow> ('cs, 'aq) Scheduler" where
  "preempt_torrents [] s = s"
| "preempt_torrents ((infoHash, ctrl) # rest) s =
     (if Complete ctrl \<and> Empty (Dispatcher ctrl) then
        (let becameIdle =
               MostRecent [dispatcher_CreatedAt (Dispatcher ctrl),
                           LastConnRemoved (Dispatcher ctrl)];
             (now, s1) = clock_Now s
         in if time_Sub now becameIdle > IdleSeederTTL (config s1) then
              preempt_torrents rest
                ((emit (Log InfoLevel ''Removing idle torrent'') s1)
                   \<lparr>torrentControls := AList.delete infoHash (torrentControls s1)\<rparr>)
            else preempt_torrents rest s1)
      else preempt_torrents rest s)"

definition preemptionTickEvent_Apply ::
  "('cs, 'aq) collaborators \<Rightarrow> ('cs, 'aq) Scheduler \<Rightarrow> ('cs, 'aq) Scheduler" where
  "preemptionTickEvent_Apply env s =
     (let s1 = emit (Log DebugLevel ''Applying preemption tick event'') s;
          s2 = preempt_conns (ActiveConns env (connState s1)) s1
      in preempt_torrents (torrentControls s2) s2)"

section \<open>The collaborators as the specification describes them\<close>

text \<open>
  The theorems about the events hold for every implementation of the collaborators.
  The definitions of this section give one implementation, written from the
  specification, on which the events are run on concrete inputs.
\<close>

subsection \<open>ConnState\<close>

text \<open>
  Modelled from the spec: \<open>connState\<close> is defined outside the file. The spec gives it a
  pending set, an active set and a blacklist, all keyed by the pair of peer and
  info-hash, and a capacity counter per info-hash.
\<close>

record connState =
  pending :: "(peerID \<times> infoHash) list"
  active :: "conn list"
  blacklist :: "((peerID \<times> infoHash) \<times> time) list"
  capacity :: "(infoHash \<times> nat) list"

definition connKey :: "conn \<Rightarrow> peerID \<times> infoHash" where
  "connKey c = (conn_PeerID c, conn_InfoHash c)"

text \<open>
  Modelled from the spec: \<open>AddPending\<close> fails if the torrent has no capacity left, or
  if the pair is already pending, active or blacklisted; the capacity check comes first
  (an \<open>AtCapacity\<close> answer is repeated for every later pair of the torrent). Otherwise
  it reserves one unit of capacity. A blacklist entry bars the pair until its expiry; a
  torrent whose capacity was never initialised has no unit to give. The connection
  state has a clock of its own, of which it takes the current reading.
\<close>

definition connState_AddPending ::
  "clock \<Rightarrow> peerID \<Rightarrow> infoHash \<Rightarrow> connState \<Rightarrow> error option \<times> connState" where
  "connState_AddPending clk pid h cs =
     (let k = (pid, h);
          n = (case map_of (capacity cs) h of None \<Rightarrow> 0 | Some n \<Rightarrow> n)
      in if n = 0 then (Some errTorrentAtCapacity, cs)
         else if k \<in> set (pending cs) then (Some errAlreadyPending, cs)
         else if k \<in> connKey ` set (active cs) then (Some errAlreadyActive, cs)
         else if (case map_of (blacklist cs) k of None \<Rightarrow> False
                  | Some expiry \<Rightarrow> shd clk < expiry)
              then (Some errBlacklisted, cs)
         else (None, cs\<lparr>pending := pending cs @ [k],
                         capacity := AList.update h (n - 1) (capacity cs)\<rparr>))"

text \<open>
  Modelled from the spec: \<open>DeleteActive\<close> removes the connection from the active set
  and releases one unit of capacity; nothing happens for a connection that is not active.
\<close>

definition connState_DeleteActive :: "conn \<Rightarrow> connState \<Rightarrow> connState" where
  "connState_DeleteActive c cs =
     (if c \<in> set (active cs) then
        cs\<lparr>active := removeAll c (active cs),
            capacity :=
              AList.update (conn_InfoHash c)
                ((case map_of (capacity cs) (conn_InfoHash c) of None \<Rightarrow> 0 | Some n \<Rightarrow> n) + 1)
                (capacity cs)\<rparr>
      else cs)"

text \<open>
  Modelled from the spec: \<open>Blacklist\<close> inserts or refreshes the entry of the pair, with
  expiry \<open>now + BlacklistDuration\<close>, and returns an error iff the pair is still active or
  pending.
\<close>

definition connState_Blacklist ::
  "config \<Rightarrow> clock \<Rightarrow> peerID \<Rightarrow> infoHash \<Rightarrow> connState \<Rightarrow> error option \<times> connState" where
  "connState_Blacklist cfg clk pid h cs =
     (let k = (pid, h)
      in if k \<in> set (pending cs) \<or> k \<in> connKey ` set (active cs)
         then (Some errBlacklistLiveConn, cs)
         else (None, cs\<lparr>blacklist :=
                          AList.update k (shd clk + BlacklistDuration cfg) (blacklist cs)\<rparr>))"

text \<open>Modelled from the spec: \<open>ActiveConns\<close> is a snapshot list of the active connections.\<close>

definition connState_ActiveConns :: "connState \<Rightarrow> conn list" where
  "connState_ActiveConns cs = active cs"

text \<open>
  Modelled from the spec: \<open>InitCapacity\<close> sets the capacity of the torrent to
  \<open>MaxConnsPerTorrent\<close> the first time the torrent is seen.
\<close>

definition connState_InitCapacity :: "config \<Rightarrow> infoHash \<Rightarrow> connState \<Rightarrow> connState" where
  "connState_InitCapacity cfg h cs =
     (case map_of (capacity cs) h of
        None \<Rightarrow> cs\<lparr>capacity := AList.update h (MaxConnsPerTorrent cfg) (capacity cs)\<rparr>
      | Some n \<Rightarrow> cs)"

subsection \<open>AnnounceQueue\<close>

text \<open>
  Modelled from the spec: \<open>announceQueue\<close> is defined outside the file. An entry is
  ready (in the queue), in flight (announcing, not in the queue) or done (removed).
  \<open>Add\<close> appends, \<open>Next\<close> pops the first ready entry and marks it in flight, \<open>Ready\<close>
  re-admits an in-flight entry at the tail and ignores any other, \<open>Done\<close> removes the
  entry.
\<close>

record announceQueue =
  ready :: "dispatcher list"
  inflight :: "dispatcher list"

definition queue_Add :: "dispatcher \<Rightarrow> announceQueue \<Rightarrow> announceQueue" where
  "queue_Add d q = q\<lparr>ready := ready q @ [d]\<rparr>"

definition queue_Next :: "announceQueue \<Rightarrow> dispatcher option \<times> announceQueue" where
  "queue_Next q =
     (case ready q of
        [] \<Rightarrow> (None, q)
      | d # ds \<Rightarrow> (Some d, q\<lparr>ready := ds, inflight := inflight q @ [d]\<rparr>))"

definition queue_Ready :: "dispatcher \<Rightarrow> announceQueue \<Rightarrow> announceQueue" where
  "queue_Ready d q =
     (if d \<in> set (inflight q)
      then q\<lparr>ready := ready q @ [d], inflight := removeAll d (inflight q)\<rparr>
      else q)"

definition queue_Done :: "dispatcher \<Rightarrow> announceQueue \<Rightarrow> announceQueue" where
  "queue_Done d q = q\<lparr>ready := removeAll d (ready q), inflight := removeAll d (inflight q)\<rparr>"

subsection \<open>Peer identifiers and the dispatcher factory\<close>

text \<open>
  Modelled from the spec: \<open>torlib.NewPeerID\<close> is defined outside the file. A peer
  identifier has a fixed width of 20 bytes; a string of another length does not parse.
\<close>

definition torlib_NewPeerID :: "string \<Rightarrow> error + peerID" where
  "torlib_NewPeerID str = (if length str = 20 then Inr str else Inl errInvalidPeerID)"

text \<open>
  Modelled from the spec: the dispatcher factory is defined outside the file;
  \<open>New(torrent)\<close> gives a dispatcher for the torrent. The one here is created at the
  clock's time and has no connection yet.
\<close>

definition factory_New :: "clock \<Rightarrow> torrent \<Rightarrow> dispatcher" where
  "factory_New clk t =
     \<lparr>Torrent = t, dispatcher_CreatedAt = shd clk, LastConnRemoved = 0, Empty = True\<rparr>"

definition spec_collaborators ::
  "config \<Rightarrow> clock \<Rightarrow> (connState, announceQueue) collaborators" where
  "spec_collaborators cfg clk =
     \<lparr>NewPeerID = torlib_NewPeerID,
      dispatcherFactory_New = factory_New clk,
      AddPending = connState_AddPending clk,
      DeleteActive = connState_DeleteActive,
      Blacklist = connState_Blacklist cfg clk,
      ActiveConns = connState_ActiveConns,
      InitCapacity = connState_InitCapacity cfg,
      announceQueue_Add = queue_Add,
      announceQueue_Ready = queue_Ready,
      announceQueue_Done = queue_Done\<rparr>"

section \<open>Observations and example data\<close>

text \<open>
  The error sinks waiting on the torrent \<open>h\<close>, and whether \<open>h\<close> can still wait (it has no
  control, or one that is not complete).
\<close>

definition waiters :: "('cs, 'aq) Scheduler \<Rightarrow> infoHash \<Rightarrow> chan list" where
  "waiters s h = (case map_of (torrentControls s) h of None \<Rightarrow> [] | Some c \<Rightarrow> Errors c)"

definition incomplete :: "('cs, 'aq) Scheduler \<Rightarrow> infoHash \<Rightarrow> bool" where
  "incomplete s h = (case map_of (torrentControls s) h of None \<Rightarrow> True | Some c \<Rightarrow> \<not> Complete c)"

text \<open>
  The state in which the loop of the announce response stands when it has gone through
  the peers \<open>pre\<close> and turns to the peer after them; \<open>None\<close> when a \<open>break\<close> has ended
  the loop among \<open>pre\<close>, so that it never turns to that peer.
\<close>

fun announceResponse_arrives ::
  "('cs, 'aq) collaborators \<Rightarrow> infoHash \<Rightarrow> torrentControl \<Rightarrow> peerInfo list \<Rightarrow>
   ('cs, 'aq) Scheduler \<Rightarrow> ('cs, 'aq) Scheduler option" where
  "announceResponse_arrives env h ctrl [] s = Some s"
| "announceResponse_arrives env h ctrl (p # ps) s =
     (case NewPeerID env (peer_PeerID p) of
        Inl err \<Rightarrow>
          announceResponse_arrives env h ctrl ps
            (emit (Logf ErrorLevel ''Error creating PeerID from announce response: %s'' err) s)
      | Inr pid \<Rightarrow>
          if pid = peerID s then announceResponse_arrives env h ctrl ps s
          else
            (case AddPending env pid h (connState s) of
               (Some err, cs') \<Rightarrow>
                 if err = errTorrentAtCapacity then None
                 else
                   announceResponse_arrives env h ctrl ps
                     (emit (Logf InfoLevel ''Cannot add pending conn: %s, skipping'' err)
                           (s\<lparr>connState := cs'\<rparr>))
             | (None, cs') \<Rightarrow>
                 announceResponse_arrives env h ctrl ps
                   (emit (Go_initOutgoingConn pid (peer_IP p) (peer_Port p)
                            (Torrent (Dispatcher ctrl)))
                         (s\<lparr>connState := cs'\<rparr>))))"

text \<open>
  The preemption tick in the words of its description, each comparison made with the
  reading that the clock gives when it is made: the connections that are closed, the
  clock that the connections leave behind, and the controls that are kept.
\<close>

fun conns_closed :: "config \<Rightarrow> clock \<Rightarrow> conn list \<Rightarrow> conn list" where
  "conns_closed cfg clk [] = []"
| "conns_closed cfg clk (c # cs) =
     (if time_Sub (shd clk)
           (max (conn_CreatedAt c) (max (conn_LastGoodPieceReceived c) (conn_LastPieceSent c)))
         > IdleConnTTL cfg
      then c # conns_closed cfg (stl clk) cs
      else if time_Sub (shd (stl clk)) (conn_CreatedAt c) > ConnTTL cfg
      then c # conns_closed cfg (stl (stl clk)) cs
      else conns_closed cfg (stl (stl clk)) cs)"

fun conns_clock :: "config \<Rightarrow> clock \<Rightarrow> conn list \<Rightarrow> clock" where
  "conns_clock cfg clk [] = clk"
| "conns_clock cfg clk (c # cs) =
     (if time_Sub (shd clk)
           (max (conn_CreatedAt c) (max (conn_LastGoodPieceReceived c) (conn_LastPieceSent c)))
         > IdleConnTTL cfg
      then conns_clock cfg (stl clk) cs
      else conns_clock cfg (stl (stl clk)) cs)"

fun seeders_kept ::
  "config \<Rightarrow> clock \<Rightarrow> (infoHash \<times> torrentControl) list \<Rightarrow>
   (infoHash \<times> torrentControl) list" where
  "seeders_kept cfg clk [] = []"
| "seeders_kept cfg clk ((h, ctrl) # rest) =
     (if Complete ctrl \<and> Empty (Dispatcher ctrl) then
        (if time_Sub (shd clk)
              (max (dispatcher_CreatedAt (Dispatcher ctrl)) (LastConnRemoved (Dispatcher ctrl)))
            > IdleSeederTTL cfg
         then seeders_kept cfg (stl clk) rest
         else (h, ctrl) # seeders_kept cfg (stl clk) rest)
      else (h, ctrl) # seeders_kept cfg clk rest)"

text \<open>The next \<open>n\<close> readings of the clock are all \<open>now\<close>.\<close>

fun frozen :: "nat \<Rightarrow> time \<Rightarrow> clock \<Rightarrow> bool" where
  "frozen 0 now clk = True"
| "frozen (Suc n) now clk = (shd clk = now \<and> frozen n now (stl clk))"

text \<open>
  A scheduler with two connections per torrent, whose clock stands at time 1000, that
  knows the torrent \<open>h1\<close> only by its capacity; four peers, the first being the
  scheduler itself.
\<close>

definition ex_config :: config where
  "ex_config = \<lparr>MaxConnsPerTorrent = 2, BlacklistDuration = 30, IdleConnTTL = 10,
                 ConnTTL = 100, IdleSeederTTL = 20\<rparr>"

definition ex_clock :: clock where
  "ex_clock = sconst 1000"

definition ex_env :: "(connState, announceQueue) collaborators" where
  "ex_env = spec_collaborators ex_config ex_clock"

definition ex_torrent :: torrent where
  "ex_torrent = \<lparr>torrent_InfoHash = ''h1''\<rparr>"

definition ex_dispatcher :: dispatcher where
  "ex_dispatcher =
     \<lparr>Torrent = ex_torrent, dispatcher_CreatedAt = 900, LastConnRemoved = 950, Empty = True\<rparr>"

definition ex_control :: torrentControl where
  "ex_control = \<lparr>Dispatcher = ex_dispatcher, Errors = [], Complete = False\<rparr>"

definition ex_connState :: connState where
  "ex_connState = \<lparr>pending = [], active = [], blacklist = [], capacity = [(''h1'', 2)]\<rparr>"

definition ex_scheduler :: "(connState, announceQueue) Scheduler" where
  "ex_scheduler =
     \<lparr>peerID = ''peer-self-0000000000'', config = ex_config, clock = ex_clock,
      connState = ex_connState, announceQueue = \<lparr>ready = [], inflight = []\<rparr>,
      torrentControls = [], effects = []\<rparr>"

definition ex_peer_self :: peerInfo where
  "ex_peer_self = \<lparr>peer_PeerID = ''peer-self-0000000000'', peer_IP = ''10.0.0.1'', peer_Port = 6881\<rparr>"

definition ex_peer_x :: peerInfo where
  "ex_peer_x = \<lparr>peer_PeerID = ''peer-xxxx-0000000001'', peer_IP = ''10.0.0.2'', peer_Port = 6882\<rparr>"

definition ex_peer_y :: peerInfo where
  "ex_peer_y = \<lparr>peer_PeerID = ''peer-yyyy-0000000002'', peer_IP = ''10.0.0.3'', peer_Port = 6883\<rparr>"

definition ex_peer_z :: peerInfo where
  "ex_peer_z = \<lparr>peer_PeerID = ''peer-zzzz-0000000003'', peer_IP = ''10.0.0.4'', peer_Port = 6884\<rparr>"

definition ex_conn :: "peerID \<Rightarrow> time \<Rightarrow> time \<Rightarrow> conn" where
  "ex_conn pid created received =
     \<lparr>conn_PeerID = pid, conn_InfoHash = ''h1'', conn_CreatedAt = created,
      conn_LastGoodPieceReceived = received, conn_LastPieceSent = 0\<rparr>"

text \<open>
  States of that scheduler: \<open>h1\<close> never seen; \<open>h1\<close> being downloaded, with the error
  sinks \<open>errcs\<close> waiting; \<open>h1\<close> complete; and \<open>h1\<close> being downloaded with the connection
  state \<open>cs\<close>.
\<close>

definition ex_unseen :: "(connState, announceQueue) Scheduler" where
  "ex_unseen = ex_scheduler\<lparr>connState := ex_connState\<lparr>capacity := []\<rparr>\<rparr>"

definition ex_waiting :: "chan list \<Rightarrow> (connState, announceQueue) Scheduler" where
  "ex_waiting errcs =
     ex_scheduler\<lparr>torrentControls := [(''h1'', ex_control\<lparr>Errors := errcs\<rparr>)]\<rparr>"

definition ex_seeding :: "(connState, announceQueue) Scheduler" where
  "ex_seeding = ex_scheduler\<lparr>torrentControls := [(''h1'', ex_control\<lparr>Complete := True\<rparr>)]\<rparr>"

definition ex_leeching :: "connState \<Rightarrow> (connState, announceQueue) Scheduler" where
  "ex_leeching cs =
     ex_scheduler\<lparr>connState := cs, torrentControls := [(''h1'', ex_control)]\<rparr>"

text \<open>
  The connection state in which the pairs \<open>ps\<close> are pending and \<open>h1\<close> has \<open>n\<close> units of
  capacity left.
\<close>

definition ex_pending :: "(peerID \<times> infoHash) list \<Rightarrow> nat \<Rightarrow> connState" where
  "ex_pending ps n = ex_connState\<lparr>pending := ps, capacity := [(''h1'', n)]\<rparr>"

text \<open>
  The state in which the loop of an announce response for \<open>h1\<close> starts from the state
  \<open>s\<close>, the dial of a peer, and the state of the scheduler with the connection state
  \<open>cs\<close> after the effects \<open>es\<close>.
\<close>

definition ex_started ::
  "(connState, announceQueue) Scheduler \<Rightarrow> (connState, announceQueue) Scheduler" where
  "ex_started s =
     s\<lparr>effects := effects s @ [Log DebugLevel ''Applying announce response event''],
       announceQueue := announceQueue_Ready ex_env (Dispatcher ex_control) (announceQueue s)\<rparr>"

definition ex_dial :: "peerInfo \<Rightarrow> effect" where
  "ex_dial p = Go_initOutgoingConn (peer_PeerID p) (peer_IP p) (peer_Port p) ex_torrent"

definition ex_reached ::
  "connState \<Rightarrow> effect list \<Rightarrow> (connState, announceQueue) Scheduler" where
  "ex_reached cs es =
     (ex_leeching cs)
       \<lparr>effects := Log DebugLevel ''Applying announce response event'' # es\<rparr>"

text \<open>
  Two states in which the clock advances while the tick applies: two connections with
  the same times, created and last active at 990, the clock reading 1000, 1000 and then
  1001; and two complete seeders with the same times, empty since 980, the clock
  reading 1000 and then 1001.
\<close>

definition ex_two_conns :: "(connState, announceQueue) Scheduler" where
  "ex_two_conns =
     (ex_leeching
        (ex_connState\<lparr>active := [ex_conn ''a'' 990 990, ex_conn ''b'' 990 990],
                      capacity := [(''h1'', 0)]\<rparr>))
       \<lparr>clock := 1000 ## 1000 ## sconst 1001\<rparr>"

definition ex_two_seeders :: "(connState, announceQueue) Scheduler" where
  "ex_two_seeders =
     ex_scheduler
       \<lparr>clock := 1000 ## sconst 1001,
        torrentControls :=
          [(''h1'', \<lparr>Dispatcher = ex_dispatcher\<lparr>LastConnRemoved := 980\<rparr>,
                     Errors = [], Complete = True\<rparr>),
           (''h2'', \<lparr>Dispatcher = ex_dispatcher\<lparr>Torrent := \<lparr>torrent_InfoHash = ''h2''\<rparr>,
                                                 LastConnRemoved := 980\<rparr>,
                     Errors = [], Complete = True\<rparr>)]\<rparr>"

lemmas ex_defs =
  ex_config_def ex_clock_def ex_env_def ex_torrent_def ex_dispatcher_def ex_control_def
  ex_connState_def ex_scheduler_def ex_unseen_def ex_waiting_def ex_seeding_def
  ex_leeching_def ex_pending_def ex_started_def ex_dial_def ex_reached_def
  ex_two_conns_def ex_two_seeders_def ex_peer_self_def ex_peer_x_def ex_peer_y_def ex_peer_z_def ex_conn_def
  spec_collaborators_def torlib_NewPeerID_def factory_New_def
  connState_AddPending_def connState_DeleteActive_def connState_Blacklist_def
  connState_ActiveConns_def connState_InitCapacity_def connKey_def
  queue_Add_def queue_Ready_def queue_Done_def

section \<open>Properties of the events\<close>

subsection \<open>Auxiliary facts\<close>

lemma emit_simps:
  "effects (emit e s) = effects s @ [e]"
  "peerID (emit e s) = peerID s"
  "config (emit e s) = config s"
  "clock (emit e s) = clock s"
  "connState (emit e s) = connState s"
  "announceQueue (emit e s) = announceQueue s"
  "torrentControls (emit e s) = torrentControls s"
  by (simp_all add: emit_def)

lemma MostRecent_max:
  "MostRecent [a, b] = max a b"
  "MostRecent [a, b, c] = max a (max b c)"
  by (simp_all add: max.commute max.left_commute)

lemma dials_append: "dials (xs @ ys) = dials xs @ dials ys"
  by (induction xs rule: dials.induct) simp_all

lemma sends_append: "sends (xs @ ys) = sends xs @ sends ys"
  by (induction xs rule: sends.induct) simp_all

lemma closes_append: "closes (xs @ ys) = closes xs @ closes ys"
  by (induction xs rule: closes.induct) simp_all

lemma sends_map_ChanSend: "sends (map (\<lambda>c. ChanSend c r) cs) = map (\<lambda>c. (c, r)) cs"
  by (induction cs) simp_all

lemma send_nil_all_eq:
  "send_nil_all cs s = s\<lparr>effects := effects s @ map (\<lambda>c. ChanSend c None) cs\<rparr>"
  by (induction cs arbitrary: s) (simp_all add: emit_def)

subsection \<open>closedConnEvent\<close>

text \<open>
  Claim C8. Applying a closedConn event for the connection \<open>c\<close> calls \<open>DeleteActive c\<close>
  and then \<open>Blacklist\<close> on the pair of the peer and the info-hash of \<open>c\<close>, so the
  connection state after the event is the one \<open>Blacklist\<close> returns on the state that
  \<open>DeleteActive\<close> left. An error that \<open>Blacklist\<close> returns is logged at info level: the
  event ends as it does without the error, and nothing but the log line distinguishes the
  two outcomes. No other field of the scheduler changes.
\<close>

theorem closedConn_apply:
  "closedConnEvent_Apply env c s =
     (case Blacklist env (conn_PeerID c) (conn_InfoHash c)
             (DeleteActive env c (connState s)) of
        (err, cs') \<Rightarrow>
          s\<lparr>connState := cs',
            effects := effects s @
              Log DebugLevel ''Applying closed conn event'' #
              (case err of
                 None \<Rightarrow> []
               | Some e \<Rightarrow> [Logf InfoLevel ''Error blacklisting active conn: %s'' e])\<rparr>)"
  by (simp add: closedConnEvent_Apply_def emit_def Let_def split: prod.splits option.splits)

text \<open>
  On the collaborators of the specification: closing the only connection of a pair
  removes it from the active set, gives its unit of capacity back and blacklists the
  pair until time 1030; when a second connection of the same pair is still active,
  \<open>Blacklist\<close> fails, the failure is logged and the connection is removed all the same.
\<close>

theorem closedConn_apply_witness:
  "closedConnEvent_Apply ex_env (ex_conn ''p'' 900 0)
     (ex_scheduler\<lparr>connState :=
        \<lparr>pending = [], active = [ex_conn ''p'' 900 0], blacklist = [],
         capacity = [(''h1'', 1)]\<rparr>\<rparr>)
   = ex_scheduler
       \<lparr>connState :=
          \<lparr>pending = [], active = [], blacklist = [((''p'', ''h1''), 1030)],
           capacity = [(''h1'', 2)]\<rparr>,
        effects := [Log DebugLevel ''Applying closed conn event'']\<rparr>
   \<and> closedConnEvent_Apply ex_env (ex_conn ''p'' 900 0)
     (ex_scheduler\<lparr>connState :=
        \<lparr>pending = [], active = [ex_conn ''p'' 900 0, ex_conn ''p'' 950 0], blacklist = [],
         capacity = [(''h1'', 0)]\<rparr>\<rparr>)
   = ex_scheduler
       \<lparr>connState :=
          \<lparr>pending = [], active = [ex_conn ''p'' 950 0], blacklist = [],
           capacity = [(''h1'', 1)]\<rparr>,
        effects := [Log DebugLevel ''Applying closed conn event'',
                    Logf InfoLevel ''Error blacklisting active conn: %s''
                      errBlacklistLiveConn]\<rparr>"
  using closedConn_apply [of ex_env "ex_conn ''p'' 900 0"
      "ex_scheduler\<lparr>connState :=
        \<lparr>pending = [], active = [ex_conn ''p'' 900 0], blacklist = [],
         capacity = [(''h1'', 1)]\<rparr>\<rparr>"]
    closedConn_apply [of ex_env "ex_conn ''p'' 900 0"
      "ex_scheduler\<lparr>connState :=
        \<lparr>pending = [], active = [ex_conn ''p'' 900 0, ex_conn ''p'' 950 0], blacklist = [],
         capacity = [(''h1'', 0)]\<rparr>\<rparr>"]
  by (simp add: ex_defs)

subsection \<open>announceResponseEvent without a control\<close>

text \<open>
  Claim C1 (amended). When an announceResponse event for the info-hash \<open>h\<close> is applied
  and \<open>h\<close> is absent from \<open>torrentControls\<close>, the scheduler writes its two log lines and
  returns: the announce queue is left as it is (no entry is marked ready), the
  connection state is untouched (no \<open>AddPending\<close> is attempted) and no dial is spawned,
  whatever the peer list is.
\<close>

theorem announceResponse_absent_control:
  assumes "map_of (torrentControls s) h = None"
  shows "announceResponseEvent_Apply env h peers s =
           s\<lparr>effects := effects s @
                [Log DebugLevel ''Applying announce response event'',
                 Log InfoLevel ''Dispatcher closed after announce response received'']\<rparr>"
  using assms by (simp add: announceResponseEvent_Apply_def emit_def Let_def)

theorem announceResponse_absent_control_witness:
  "map_of (torrentControls
             (ex_scheduler\<lparr>announceQueue := \<lparr>ready = [], inflight = [ex_dispatcher]\<rparr>\<rparr>))
          ''h1'' = None
   \<and> announceResponseEvent_Apply ex_env ''h1'' [ex_peer_x]
         (ex_scheduler\<lparr>announceQueue := \<lparr>ready = [], inflight = [ex_dispatcher]\<rparr>\<rparr>)
       = ex_scheduler
           \<lparr>announceQueue := \<lparr>ready = [], inflight = [ex_dispatcher]\<rparr>,
            effects :=
              [Log DebugLevel ''Applying announce response event'',
               Log InfoLevel ''Dispatcher closed after announce response received'']\<rparr>"
  using announceResponse_absent_control
    [of "ex_scheduler\<lparr>announceQueue := \<lparr>ready = [], inflight = [ex_dispatcher]\<rparr>\<rparr>"
        "''h1''" ex_env "[ex_peer_x]"]
  by (simp add: ex_scheduler_def)

text \<open>
  The claim as it was stated fails: with the dispatcher of \<open>h1\<close> in flight and no
  control for \<open>h1\<close>, the queue after the event is not the queue with the dispatcher
  marked ready, and the dispatcher is not among the ready entries.
\<close>

theorem announceResponse_absent_not_ready:
  "map_of (torrentControls
             (ex_scheduler\<lparr>announceQueue := \<lparr>ready = [], inflight = [ex_dispatcher]\<rparr>\<rparr>))
          ''h1'' = None
   \<and> torrent_InfoHash (Torrent ex_dispatcher) = ''h1''
   \<and> announceQueue
         (announceResponseEvent_Apply ex_env ''h1'' [ex_peer_x]
            (ex_scheduler\<lparr>announceQueue := \<lparr>ready = [], inflight = [ex_dispatcher]\<rparr>\<rparr>))
       \<noteq> announceQueue_Ready ex_env ex_dispatcher
           (announceQueue
              (ex_scheduler\<lparr>announceQueue := \<lparr>ready = [], inflight = [ex_dispatcher]\<rparr>\<rparr>))
   \<and> ex_dispatcher \<notin> set (ready (announceQueue
         (announceResponseEvent_Apply ex_env ''h1'' [ex_peer_x]
            (ex_scheduler\<lparr>announceQueue := \<lparr>ready = [], inflight = [ex_dispatcher]\<rparr>\<rparr>))))"
  by (simp add: announceResponseEvent_Apply_def emit_def Let_def ex_defs)

subsection \<open>completedDispatcherEvent\<close>

text \<open>
  Claim C2 (amended). When a completedDispatcher event is applied and a control exists
  for the info-hash of the dispatcher, success (\<open>nil\<close>) is sent to every error sink of
  \<open>ctrl.Errors\<close>, in the order of the list, and \<open>ctrl.Complete\<close> is set to true; the list
  \<open>ctrl.Errors\<close> itself is left as it was. Besides, the dispatcher is marked done in the
  announce queue, and nothing else changes.
\<close>

theorem completedDispatcher_present:
  assumes "map_of (torrentControls s) (torrent_InfoHash (Torrent d)) = Some ctrl"
  shows "completedDispatcherEvent_Apply env d s =
           s\<lparr>announceQueue := announceQueue_Done env d (announceQueue s),
             torrentControls :=
               AList.update (torrent_InfoHash (Torrent d)) (ctrl\<lparr>Complete := True\<rparr>)
                 (torrentControls s),
             effects := effects s @
               Log DebugLevel ''Applying completed dispatcher event'' #
               map (\<lambda>errc. ChanSend errc None) (Errors ctrl)\<rparr>
         \<and> sends (effects (completedDispatcherEvent_Apply env d s)) =
             sends (effects s) @ map (\<lambda>errc. (errc, None)) (Errors ctrl)
         \<and> map_of (torrentControls (completedDispatcherEvent_Apply env d s))
             (torrent_InfoHash (Torrent d))
           = Some \<lparr>Dispatcher = Dispatcher ctrl, Errors = Errors ctrl, Complete = True\<rparr>"
  using assms
  by (simp add: completedDispatcherEvent_Apply_def emit_def Let_def send_nil_all_eq
        sends_append sends_map_ChanSend AList.update_conv')

theorem completedDispatcher_present_witness:
  "map_of (torrentControls
             (ex_scheduler\<lparr>torrentControls := [(''h1'', ex_control\<lparr>Errors := [7, 8]\<rparr>)]\<rparr>))
          (torrent_InfoHash (Torrent ex_dispatcher))
     = Some (ex_control\<lparr>Errors := [7, 8]\<rparr>)
   \<and> sends (effects (completedDispatcherEvent_Apply ex_env ex_dispatcher
         (ex_scheduler\<lparr>torrentControls := [(''h1'', ex_control\<lparr>Errors := [7, 8]\<rparr>)]\<rparr>)))
     = [(7, None), (8, None)]
   \<and> map_of (torrentControls (completedDispatcherEvent_Apply ex_env ex_dispatcher
         (ex_scheduler\<lparr>torrentControls := [(''h1'', ex_control\<lparr>Errors := [7, 8]\<rparr>)]\<rparr>)))
        ''h1''
     = Some \<lparr>Dispatcher = ex_dispatcher, Errors = [7, 8], Complete = True\<rparr>"
  using completedDispatcher_present
    [of "ex_scheduler\<lparr>torrentControls := [(''h1'', ex_control\<lparr>Errors := [7, 8]\<rparr>)]\<rparr>"
        ex_dispatcher "ex_control\<lparr>Errors := [7, 8]\<rparr>" ex_env]
  by (simp add: ex_scheduler_def ex_dispatcher_def ex_torrent_def ex_control_def)

text \<open>
  The claim as it was stated fails: after the event the list of error sinks of the
  control still holds the two sinks it held before; it is not empty.
\<close>

theorem completedDispatcher_keeps_Errors:
  "map_of (torrentControls
             (ex_scheduler\<lparr>torrentControls := [(''h1'', ex_control\<lparr>Errors := [7, 8]\<rparr>)]\<rparr>))
          (torrent_InfoHash (Torrent ex_dispatcher))
     = Some (ex_control\<lparr>Errors := [7, 8]\<rparr>)
   \<and> map_option Errors
       (map_of (torrentControls (completedDispatcherEvent_Apply ex_env ex_dispatcher
          (ex_scheduler\<lparr>torrentControls := [(''h1'', ex_control\<lparr>Errors := [7, 8]\<rparr>)]\<rparr>)))
          ''h1'')
     = Some [7, 8]
   \<and> map_option Errors
       (map_of (torrentControls (completedDispatcherEvent_Apply ex_env ex_dispatcher
          (ex_scheduler\<lparr>torrentControls := [(''h1'', ex_control\<lparr>Errors := [7, 8]\<rparr>)]\<rparr>)))
          ''h1'')
     \<noteq> Some []"
  by (simp add: completedDispatcherEvent_Apply_def emit_def Let_def send_nil_all_eq ex_defs)

text \<open>
  Claim C9. Applying a completedDispatcher event always calls
  \<open>AnnounceQueue.Done(dispatcher)\<close>, also when \<open>torrentControls\<close> has no control for the
  info-hash of the dispatcher. In that case the event changes nothing else: it only
  adds its two log lines, and it sends to no error sink.
\<close>

theorem completedDispatcher_always_Done:
  "announceQueue (completedDispatcherEvent_Apply env d s) =
     announceQueue_Done env d (announceQueue s)
   \<and> (map_of (torrentControls s) (torrent_InfoHash (Torrent d)) = None \<longrightarrow>
        completedDispatcherEvent_Apply env d s =
          s\<lparr>announceQueue := announceQueue_Done env d (announceQueue s),
            effects := effects s @
              [Log DebugLevel ''Applying completed dispatcher event'',
               Log ErrorLevel ''Completed dispatcher not found'']\<rparr>
        \<and> sends (effects (completedDispatcherEvent_Apply env d s)) = sends (effects s))"
  by (simp add: completedDispatcherEvent_Apply_def emit_def Let_def send_nil_all_eq
        sends_append split: option.splits)

theorem completedDispatcher_always_Done_witness:
  "map_of (torrentControls
             (ex_scheduler\<lparr>announceQueue := \<lparr>ready = [ex_dispatcher], inflight = []\<rparr>\<rparr>))
          (torrent_InfoHash (Torrent ex_dispatcher)) = None
   \<and> completedDispatcherEvent_Apply ex_env ex_dispatcher
         (ex_scheduler\<lparr>announceQueue := \<lparr>ready = [ex_dispatcher], inflight = []\<rparr>\<rparr>)
       = ex_scheduler
           \<lparr>announceQueue := \<lparr>ready = [], inflight = []\<rparr>,
            effects :=
              [Log DebugLevel ''Applying completed dispatcher event'',
               Log ErrorLevel ''Completed dispatcher not found'']\<rparr>
   \<and> sends (effects (completedDispatcherEvent_Apply ex_env ex_dispatcher
         (ex_scheduler\<lparr>announceQueue := \<lparr>ready = [ex_dispatcher], inflight = []\<rparr>\<rparr>))) = []"
  using completedDispatcher_always_Done
    [of ex_env ex_dispatcher
        "ex_scheduler\<lparr>announceQueue := \<lparr>ready = [ex_dispatcher], inflight = []\<rparr>\<rparr>"]
  by (simp add: ex_scheduler_def ex_env_def spec_collaborators_def queue_Done_def)

subsection \<open>newTorrentEvent\<close>

text \<open>
  Claim C10. Applying a newTorrent event for an info-hash whose control has
  \<open>Complete = true\<close> sends success (\<open>nil\<close>) to the error sink of the event and leaves
  the scheduler as it was: \<open>torrentControls\<close> (so the \<open>Errors\<close> of the control too), the
  announce queue and the connection state are unchanged; the debug log line and the
  send are the only effects.
\<close>

theorem newTorrent_complete_unchanged:
  assumes "map_of (torrentControls s) (torrent_InfoHash t) = Some ctrl" and "Complete ctrl"
  shows "newTorrentEvent_Apply env t errc s =
           s\<lparr>effects := effects s @
                [Log DebugLevel ''Applying new torrent event'', ChanSend errc None]\<rparr>"
  using assms by (simp add: newTorrentEvent_Apply_def emit_def Let_def)

theorem newTorrent_complete_unchanged_witness:
  "map_of (torrentControls
             (ex_scheduler\<lparr>torrentControls := [(''h1'', ex_control\<lparr>Complete := True\<rparr>)]\<rparr>))
          (torrent_InfoHash ex_torrent) = Some (ex_control\<lparr>Complete := True\<rparr>)
   \<and> Complete (ex_control\<lparr>Complete := True\<rparr>)
   \<and> newTorrentEvent_Apply ex_env ex_torrent 9
         (ex_scheduler\<lparr>torrentControls := [(''h1'', ex_control\<lparr>Complete := True\<rparr>)]\<rparr>)
       = ex_scheduler
           \<lparr>torrentControls := [(''h1'', ex_control\<lparr>Complete := True\<rparr>)],
            effects := [Log DebugLevel ''Applying new torrent event'', ChanSend 9 None]\<rparr>"
  using newTorrent_complete_unchanged
    [of "ex_scheduler\<lparr>torrentControls := [(''h1'', ex_control\<lparr>Complete := True\<rparr>)]\<rparr>"
        ex_torrent "ex_control\<lparr>Complete := True\<rparr>" ex_env 9]
  by (simp add: ex_scheduler_def ex_torrent_def)

lemma newTorrent_absent:
  assumes "map_of (torrentControls s) (torrent_InfoHash t) = None"
  shows "newTorrentEvent_Apply env t errc s =
           s\<lparr>connState := InitCapacity env (torrent_InfoHash t) (connState s),
             announceQueue :=
               announceQueue_Add env (dispatcherFactory_New env t) (announceQueue s),
             torrentControls :=
               AList.update (torrent_InfoHash t)
                 \<lparr>Dispatcher = dispatcherFactory_New env t, Errors = [errc], Complete = False\<rparr>
                 (torrentControls s),
             effects := effects s @ [Log DebugLevel ''Applying new torrent event'']\<rparr>"
  using assms by (simp add: newTorrentEvent_Apply_def emit_def Let_def newTorrentControl_def)

lemma newTorrent_waiting:
  assumes "map_of (torrentControls s) (torrent_InfoHash t) = Some ctrl" and "\<not> Complete ctrl"
  shows "newTorrentEvent_Apply env t errc s =
           s\<lparr>torrentControls :=
               AList.update (torrent_InfoHash t) (ctrl\<lparr>Errors := Errors ctrl @ [errc]\<rparr>)
                 (torrentControls s),
             effects := effects s @ [Log DebugLevel ''Applying new torrent event'']\<rparr>"
  using assms by (simp add: newTorrentEvent_Apply_def emit_def Let_def)

lemma newTorrent_complete:
  assumes "map_of (torrentControls s) (torrent_InfoHash t) = Some ctrl" and "Complete ctrl"
  shows "newTorrentEvent_Apply env t errc s =
           s\<lparr>effects := effects s @
                [Log DebugLevel ''Applying new torrent event'', ChanSend errc None]\<rparr>"
  using assms by (simp add: newTorrentEvent_Apply_def emit_def Let_def)

text \<open>One more submission for a torrent that is not complete: one more waiter, no send.\<close>

lemma newTorrent_incomplete_step:
  assumes "incomplete s (torrent_InfoHash t)"
  shows "incomplete (newTorrentEvent_Apply env t errc s) (torrent_InfoHash t)"
    and "waiters (newTorrentEvent_Apply env t errc s) (torrent_InfoHash t) =
           waiters s (torrent_InfoHash t) @ [errc]"
    and "sends (effects (newTorrentEvent_Apply env t errc s)) = sends (effects s)"
  using assms
  by (auto simp: incomplete_def waiters_def newTorrent_absent newTorrent_waiting
        AList.update_conv' sends_append split: option.splits)

lemma newTorrent_incomplete_foldl:
  assumes "incomplete s (torrent_InfoHash t)"
  shows "incomplete (foldl (\<lambda>s errc. newTorrentEvent_Apply env t errc s) s errcs)
           (torrent_InfoHash t)
       \<and> waiters (foldl (\<lambda>s errc. newTorrentEvent_Apply env t errc s) s errcs)
           (torrent_InfoHash t) = waiters s (torrent_InfoHash t) @ errcs
       \<and> sends (effects (foldl (\<lambda>s errc. newTorrentEvent_Apply env t errc s) s errcs)) =
           sends (effects s)"
  using assms
proof (induction errcs arbitrary: s)
  case Nil
  then show ?case by simp
next
  case (Cons errc errcs)
  from newTorrent_incomplete_step [OF Cons.prems, of env errc]
    Cons.IH [of "newTorrentEvent_Apply env t errc s"]
  show ?case by simp
qed

lemma completedDispatcher_sends:
  "sends (effects (completedDispatcherEvent_Apply env d s)) =
     sends (effects s) @ map (\<lambda>c. (c, None)) (waiters s (torrent_InfoHash (Torrent d)))"
  by (simp add: completedDispatcherEvent_Apply_def emit_def Let_def send_nil_all_eq
        waiters_def sends_append sends_map_ChanSend split: option.splits)

text \<open>
  Claim C4. Applying a newTorrent event for a torrent with info-hash \<open>h\<close>:
  \<^item> if \<open>h\<close> is absent from \<open>torrentControls\<close>, a control is built from the dispatcher the
    factory makes, with no error sink and \<open>Complete = false\<close>, and inserted at \<open>h\<close>; its
    dispatcher is added to the announce queue and the capacity of \<open>h\<close> is initialised;
    the control not being complete, the sink of the event becomes its only waiter;
  \<^item> if the control of \<open>h\<close> exists and is complete, the sink of the event receives
    success at once;
  \<^item> if it exists and is not complete, the sink is appended to its \<open>Errors\<close>;
  \<^item> so, from a state where \<open>h\<close> is not complete, any number of submissions for \<open>h\<close>
    send nothing, and the completedDispatcher event that follows them sends success to
    every sink that was waiting and to every sink submitted, in order.
\<close>

theorem newTorrent_apply:
  "(map_of (torrentControls s) (torrent_InfoHash t) = None \<longrightarrow>
      newTorrentEvent_Apply env t errc s =
        s\<lparr>connState := InitCapacity env (torrent_InfoHash t) (connState s),
          announceQueue :=
            announceQueue_Add env (dispatcherFactory_New env t) (announceQueue s),
          torrentControls :=
            AList.update (torrent_InfoHash t)
              \<lparr>Dispatcher = dispatcherFactory_New env t, Errors = [errc], Complete = False\<rparr>
              (torrentControls s),
          effects := effects s @ [Log DebugLevel ''Applying new torrent event'']\<rparr>)
   \<and> (map_of (torrentControls s) (torrent_InfoHash t) = Some ctrl \<and> Complete ctrl \<longrightarrow>
        newTorrentEvent_Apply env t errc s =
          s\<lparr>effects := effects s @
               [Log DebugLevel ''Applying new torrent event'', ChanSend errc None]\<rparr>)
   \<and> (map_of (torrentControls s) (torrent_InfoHash t) = Some ctrl \<and> \<not> Complete ctrl \<longrightarrow>
        newTorrentEvent_Apply env t errc s =
          s\<lparr>torrentControls :=
              AList.update (torrent_InfoHash t) (ctrl\<lparr>Errors := Errors ctrl @ [errc]\<rparr>)
                (torrentControls s),
            effects := effects s @ [Log DebugLevel ''Applying new torrent event'']\<rparr>)
   \<and> (incomplete s (torrent_InfoHash t) \<and>
      torrent_InfoHash (Torrent d) = torrent_InfoHash t \<longrightarrow>
        sends (effects (foldl (\<lambda>s errc. newTorrentEvent_Apply env t errc s) s errcs)) =
          sends (effects s)
        \<and> sends (effects (completedDispatcherEvent_Apply env d
              (foldl (\<lambda>s errc. newTorrentEvent_Apply env t errc s) s errcs))) =
            sends (effects s) @
            map (\<lambda>c. (c, None)) (waiters s (torrent_InfoHash t) @ errcs))"
proof (intro conjI impI)
  assume "map_of (torrentControls s) (torrent_InfoHash t) = None"
  then show "newTorrentEvent_Apply env t errc s =
        s\<lparr>connState := InitCapacity env (torrent_InfoHash t) (connState s),
          announceQueue :=
            announceQueue_Add env (dispatcherFactory_New env t) (announceQueue s),
          torrentControls :=
            AList.update (torrent_InfoHash t)
              \<lparr>Dispatcher = dispatcherFactory_New env t, Errors = [errc], Complete = False\<rparr>
              (torrentControls s),
          effects := effects s @ [Log DebugLevel ''Applying new torrent event'']\<rparr>"
    by (rule newTorrent_absent)
next
  assume "map_of (torrentControls s) (torrent_InfoHash t) = Some ctrl \<and> Complete ctrl"
  then show "newTorrentEvent_Apply env t errc s =
          s\<lparr>effects := effects s @
               [Log DebugLevel ''Applying new torrent event'', ChanSend errc None]\<rparr>"
    by (simp add: newTorrent_complete)
next
  assume "map_of (torrentControls s) (torrent_InfoHash t) = Some ctrl \<and> \<not> Complete ctrl"
  then show "newTorrentEvent_Apply env t errc s =
          s\<lparr>torrentControls :=
              AList.update (torrent_InfoHash t) (ctrl\<lparr>Errors := Errors ctrl @ [errc]\<rparr>)
                (torrentControls s),
            effects := effects s @ [Log DebugLevel ''Applying new torrent event'']\<rparr>"
    by (simp add: newTorrent_waiting)
next
  assume a: "incomplete s (torrent_InfoHash t) \<and>
      torrent_InfoHash (Torrent d) = torrent_InfoHash t"
  then have inc: "incomplete s (torrent_InfoHash t)" by simp
  from newTorrent_incomplete_foldl [OF inc, of env errcs]
  show "sends (effects (foldl (\<lambda>s errc. newTorrentEvent_Apply env t errc s) s errcs)) =
          sends (effects s)"
    by simp
  from newTorrent_incomplete_foldl [OF inc, of env errcs] a
  show "sends (effects (completedDispatcherEvent_Apply env d
              (foldl (\<lambda>s errc. newTorrentEvent_Apply env t errc s) s errcs))) =
            sends (effects s) @
            map (\<lambda>c. (c, None)) (waiters s (torrent_InfoHash t) @ errcs)"
    by (simp add: completedDispatcher_sends)
qed

text \<open>
  On the collaborators of the specification: the first submission for \<open>h1\<close> creates
  the control, queues its dispatcher and gives \<open>h1\<close> its two units of capacity; three
  submissions send nothing, and the completion that follows resolves the three sinks;
  a submission after completion is resolved at once; a submission while the sink 7 is
  waiting appends its own sink.
\<close>

theorem newTorrent_apply_witness:
  "map_of (torrentControls ex_unseen) (torrent_InfoHash ex_torrent) = None
   \<and> incomplete ex_unseen (torrent_InfoHash ex_torrent)
   \<and> torrent_InfoHash (Torrent (factory_New ex_clock ex_torrent)) = torrent_InfoHash ex_torrent
   \<and> newTorrentEvent_Apply ex_env ex_torrent 1 ex_unseen =
       ex_scheduler
         \<lparr>connState := ex_connState,
          announceQueue := \<lparr>ready = [factory_New ex_clock ex_torrent], inflight = []\<rparr>,
          torrentControls :=
            [(''h1'', \<lparr>Dispatcher = factory_New ex_clock ex_torrent, Errors = [1],
                       Complete = False\<rparr>)],
          effects := [Log DebugLevel ''Applying new torrent event'']\<rparr>
   \<and> sends (effects (foldl (\<lambda>s errc. newTorrentEvent_Apply ex_env ex_torrent errc s)
                        ex_unseen [1, 2, 3])) = []
   \<and> sends (effects (completedDispatcherEvent_Apply ex_env (factory_New ex_clock ex_torrent)
         (foldl (\<lambda>s errc. newTorrentEvent_Apply ex_env ex_torrent errc s)
            ex_unseen [1, 2, 3]))) = [(1, None), (2, None), (3, None)]
   \<and> map_of (torrentControls ex_seeding) (torrent_InfoHash ex_torrent)
       = Some (ex_control\<lparr>Complete := True\<rparr>)
   \<and> Complete (ex_control\<lparr>Complete := True\<rparr>)
   \<and> newTorrentEvent_Apply ex_env ex_torrent 4 ex_seeding =
       ex_seeding\<lparr>effects := [Log DebugLevel ''Applying new torrent event'', ChanSend 4 None]\<rparr>
   \<and> map_of (torrentControls (ex_waiting [7])) (torrent_InfoHash ex_torrent)
       = Some (ex_control\<lparr>Errors := [7]\<rparr>)
   \<and> \<not> Complete (ex_control\<lparr>Errors := [7]\<rparr>)
   \<and> newTorrentEvent_Apply ex_env ex_torrent 9 (ex_waiting [7]) =
       (ex_waiting [7, 9])\<lparr>effects := [Log DebugLevel ''Applying new torrent event'']\<rparr>"
  using
    newTorrent_apply [of ex_unseen ex_torrent ex_env 1 ex_control
       "factory_New ex_clock ex_torrent" "[1, 2, 3]"]
    newTorrent_apply [of ex_seeding ex_torrent ex_env 4 "ex_control\<lparr>Complete := True\<rparr>"
       ex_dispatcher "[]"]
    newTorrent_apply [of "ex_waiting [7]" ex_torrent ex_env 9 "ex_control\<lparr>Errors := [7]\<rparr>"
       ex_dispatcher "[]"]
  by (simp add: ex_defs incomplete_def waiters_def newTorrentEvent_Apply_def
        completedDispatcherEvent_Apply_def newTorrentControl_def emit_def Let_def)

subsection \<open>announceResponseEvent with a control\<close>

lemma announceResponse_arrives_peerID:
  "announceResponse_arrives env h ctrl pre s = Some s1 \<Longrightarrow> peerID s1 = peerID s"
  by (induction pre arbitrary: s)
     (auto simp: emit_simps split: sum.splits prod.splits option.splits if_splits)

text \<open>
  The loop on a list is the loop on its first part and then, unless a \<open>break\<close> has
  ended it there, the loop on the rest from the state in which it arrives.
\<close>

lemma announceResponse_peers_append:
  "announceResponse_peers env h ctrl (pre @ rest) s =
     (case announceResponse_arrives env h ctrl pre s of
        None \<Rightarrow> announceResponse_peers env h ctrl pre s
      | Some s1 \<Rightarrow> announceResponse_peers env h ctrl rest s1)"
  by (induction pre arbitrary: s)
     (auto split: sum.splits prod.splits option.splits)

lemma announceResponse_arrives_append:
  "announceResponse_arrives env h ctrl (pre @ rest) s =
     (case announceResponse_arrives env h ctrl pre s of
        None \<Rightarrow> None
      | Some s1 \<Rightarrow> announceResponse_arrives env h ctrl rest s1)"
  by (induction pre arbitrary: s)
     (auto split: sum.splits prod.splits option.splits)

lemma announceResponse_arrives_peers:
  "announceResponse_arrives env h ctrl ps s = Some s1 \<Longrightarrow>
   announceResponse_peers env h ctrl ps s = s1"
  by (induction ps arbitrary: s)
     (auto split: sum.splits prod.splits option.splits if_splits)

text \<open>When the loop gets through the whole list, the event ends in the state reached.\<close>

lemma announceResponse_end:
  assumes "map_of (torrentControls s) h = Some ctrl"
    and "announceResponse_arrives env h ctrl peers
           (s\<lparr>effects := effects s @ [Log DebugLevel ''Applying announce response event''],
              announceQueue := announceQueue_Ready env (Dispatcher ctrl) (announceQueue s)\<rparr>)
         = Some s1"
  shows "announceResponseEvent_Apply env h peers s = s1"
  using assms(1) announceResponse_arrives_peers [OF assms(2)]
  by (simp add: announceResponseEvent_Apply_def Let_def emit_def)

lemma announceResponse_peers_step:
  assumes "NewPeerID env (peer_PeerID p) = Inr pid"
    and "pid \<noteq> peerID s"
    and "AddPending env pid h (connState s) = (r, cs')"
  shows "announceResponse_peers env h ctrl (p # ps) s =
     (case r of
        Some err \<Rightarrow>
          if err = errTorrentAtCapacity then
            s\<lparr>connState := cs',
              effects := effects s @
                [Log InfoLevel ''Cannot open any more connections, torrent is at capacity'']\<rparr>
          else
            announceResponse_peers env h ctrl ps
              (s\<lparr>connState := cs',
                 effects := effects s @
                   [Logf InfoLevel ''Cannot add pending conn: %s, skipping'' err]\<rparr>)
      | None \<Rightarrow>
          announceResponse_peers env h ctrl ps
            (s\<lparr>connState := cs',
               effects := effects s @
                 [Go_initOutgoingConn pid (peer_IP p) (peer_Port p)
                    (Torrent (Dispatcher ctrl))]\<rparr>))"
  using assms by (simp add: emit_def split: option.splits)

lemma announceResponse_arrives_step:
  assumes "NewPeerID env (peer_PeerID p) = Inr pid"
    and "pid \<noteq> peerID s"
    and "AddPending env pid h (connState s) = (r, cs')"
  shows "announceResponse_arrives env h ctrl [p] s =
     (case r of
        Some err \<Rightarrow>
          if err = errTorrentAtCapacity then None
          else Some
              (s\<lparr>connState := cs',
                 effects := effects s @
                   [Logf InfoLevel ''Cannot add pending conn: %s, skipping'' err]\<rparr>)
      | None \<Rightarrow>
          Some
            (s\<lparr>connState := cs',
               effects := effects s @
                 [Go_initOutgoingConn pid (peer_IP p) (peer_Port p)
                    (Torrent (Dispatcher ctrl))]\<rparr>))"
  using assms by (simp add: emit_def split: option.splits)

text \<open>
  Claim C3. An announceResponse event for \<open>h\<close>, with a control for \<open>h\<close>, goes through its
  peers in the order of the list. Let the peer \<open>p\<close> stand anywhere in the list, after the
  peers \<open>pre\<close> and before the peers \<open>post\<close>; let the loop arrive at \<open>p\<close> in the state \<open>s1\<close>
  (it started behind the debug log line and the call of \<open>Ready\<close>, and no \<open>break\<close> ended
  it among \<open>pre\<close>); let \<open>AddPending\<close> be attempted for \<open>p\<close> (its identifier parses and is
  not the scheduler's own) and return the error \<open>r\<close> and the connection state \<open>cs'\<close>.
  \<^item> If \<open>r\<close> is \<open>errTorrentAtCapacity\<close>, the event ends there, in the state \<open>s1\<close> with
    \<open>cs'\<close> and one more log line: the result does not depend on \<open>post\<close>, and the loop
    arrives at no later peer, so no \<open>AddPending\<close> is attempted and no dial spawned for
    any of them.
  \<^item> On any other error the peer is skipped (a log line, no dial) and the loop arrives at
    the next peer; the event ends as the loop on \<open>post\<close> does from there.
  \<^item> On success a dial to \<open>p\<close> is spawned, at its address and port and for the torrent
    of the control, and the loop arrives at the next peer likewise.
\<close>

theorem announceResponse_AddPending_outcomes:
  assumes "map_of (torrentControls s) h = Some ctrl"
    and "announceResponse_arrives env h ctrl pre
           (s\<lparr>effects := effects s @ [Log DebugLevel ''Applying announce response event''],
              announceQueue := announceQueue_Ready env (Dispatcher ctrl) (announceQueue s)\<rparr>)
         = Some s1"
    and "NewPeerID env (peer_PeerID p) = Inr pid"
    and "pid \<noteq> peerID s"
    and "AddPending env pid h (connState s1) = (r, cs')"
  shows "announceResponseEvent_Apply env h (pre @ p # post) s =
     (case r of
        Some err \<Rightarrow>
          if err = errTorrentAtCapacity then
            s1\<lparr>connState := cs',
               effects := effects s1 @
                 [Log InfoLevel ''Cannot open any more connections, torrent is at capacity'']\<rparr>
          else
            announceResponse_peers env h ctrl post
              (s1\<lparr>connState := cs',
                  effects := effects s1 @
                    [Logf InfoLevel ''Cannot add pending conn: %s, skipping'' err]\<rparr>)
      | None \<Rightarrow>
          announceResponse_peers env h ctrl post
            (s1\<lparr>connState := cs',
                effects := effects s1 @
                  [Go_initOutgoingConn pid (peer_IP p) (peer_Port p)
                     (Torrent (Dispatcher ctrl))]\<rparr>))
    \<and> announceResponse_arrives env h ctrl (pre @ [p])
           (s\<lparr>effects := effects s @ [Log DebugLevel ''Applying announce response event''],
              announceQueue := announceQueue_Ready env (Dispatcher ctrl) (announceQueue s)\<rparr>)
      = (case r of
           Some err \<Rightarrow>
             if err = errTorrentAtCapacity then None
             else Some
                 (s1\<lparr>connState := cs',
                     effects := effects s1 @
                       [Logf InfoLevel ''Cannot add pending conn: %s, skipping'' err]\<rparr>)
         | None \<Rightarrow>
             Some
               (s1\<lparr>connState := cs',
                   effects := effects s1 @
                     [Go_initOutgoingConn pid (peer_IP p) (peer_Port p)
                        (Torrent (Dispatcher ctrl))]\<rparr>))"
proof -
  have pid: "pid \<noteq> peerID s1"
    using announceResponse_arrives_peerID [OF assms(2)] assms(4) by simp
  have ev: "announceResponseEvent_Apply env h (pre @ p # post) s =
      announceResponse_peers env h ctrl (p # post) s1"
    using assms(1,2)
    by (simp add: announceResponseEvent_Apply_def Let_def emit_def
          announceResponse_peers_append)
  have arr: "announceResponse_arrives env h ctrl (pre @ [p])
           (s\<lparr>effects := effects s @ [Log DebugLevel ''Applying announce response event''],
              announceQueue := announceQueue_Ready env (Dispatcher ctrl) (announceQueue s)\<rparr>)
      = announceResponse_arrives env h ctrl [p] s1"
    using assms(2)
    by (simp add: announceResponse_arrives_append del: announceResponse_arrives.simps)
  show ?thesis
    unfolding ev arr announceResponse_peers_step [OF assms(3) pid assms(5)]
      announceResponse_arrives_step [OF assms(3) pid assms(5)]
    by (rule conjI) (rule refl)+
qed

text \<open>
  On the collaborators of the specification, with two units of capacity for \<open>h1\<close>:
  for the peers \<open>x\<close>, \<open>y\<close>, \<open>z\<close>, \<open>x\<close> the loop dials \<open>x\<close> and \<open>y\<close>, is told at \<open>z\<close> that
  the torrent is at capacity and ends, never arriving behind \<open>z\<close>; with \<open>x\<close> already
  pending and one unit left, \<open>x\<close> is skipped and \<open>y\<close> is dialled; and with both units
  free the loop arrives at \<open>y\<close> after the dial of \<open>x\<close>, and dials \<open>y\<close>.
\<close>

theorem announceResponse_AddPending_outcomes_witness:
  "map_of (torrentControls (ex_leeching ex_connState)) ''h1'' = Some ex_control
   \<and> announceResponse_arrives ex_env ''h1'' ex_control [ex_peer_x, ex_peer_y]
         (ex_started (ex_leeching ex_connState))
       = Some (ex_reached (ex_pending [(peer_PeerID ex_peer_x, ''h1''), (peer_PeerID ex_peer_y, ''h1'')] 0)
            [ex_dial ex_peer_x, ex_dial ex_peer_y])
   \<and> NewPeerID ex_env (peer_PeerID ex_peer_z) = Inr (peer_PeerID ex_peer_z)
   \<and> peer_PeerID ex_peer_z \<noteq> peerID (ex_leeching ex_connState)
   \<and> AddPending ex_env (peer_PeerID ex_peer_z) ''h1''
         (connState (ex_reached (ex_pending [(peer_PeerID ex_peer_x, ''h1''), (peer_PeerID ex_peer_y, ''h1'')] 0)
            [ex_dial ex_peer_x, ex_dial ex_peer_y]))
       = (Some errTorrentAtCapacity, ex_pending [(peer_PeerID ex_peer_x, ''h1''), (peer_PeerID ex_peer_y, ''h1'')] 0)
   \<and> announceResponseEvent_Apply ex_env ''h1''
         [ex_peer_x, ex_peer_y, ex_peer_z, ex_peer_x] (ex_leeching ex_connState)
       = ex_reached (ex_pending [(peer_PeerID ex_peer_x, ''h1''), (peer_PeerID ex_peer_y, ''h1'')] 0)
           [ex_dial ex_peer_x, ex_dial ex_peer_y, Log InfoLevel ''Cannot open any more connections, torrent is at capacity'']
   \<and> announceResponse_arrives ex_env ''h1'' ex_control [ex_peer_x, ex_peer_y, ex_peer_z]
         (ex_started (ex_leeching ex_connState))
       = None
   \<and> map_of (torrentControls (ex_leeching (ex_pending [(peer_PeerID ex_peer_x, ''h1'')] 1))) ''h1''
       = Some ex_control
   \<and> announceResponse_arrives ex_env ''h1'' ex_control []
         (ex_started (ex_leeching (ex_pending [(peer_PeerID ex_peer_x, ''h1'')] 1)))
       = Some (ex_reached (ex_pending [(peer_PeerID ex_peer_x, ''h1'')] 1) [])
   \<and> NewPeerID ex_env (peer_PeerID ex_peer_x) = Inr (peer_PeerID ex_peer_x)
   \<and> peer_PeerID ex_peer_x \<noteq> peerID (ex_leeching (ex_pending [(peer_PeerID ex_peer_x, ''h1'')] 1))
   \<and> AddPending ex_env (peer_PeerID ex_peer_x) ''h1''
         (connState (ex_reached (ex_pending [(peer_PeerID ex_peer_x, ''h1'')] 1) []))
       = (Some errAlreadyPending, ex_pending [(peer_PeerID ex_peer_x, ''h1'')] 1)
   \<and> announceResponseEvent_Apply ex_env ''h1'' [ex_peer_x, ex_peer_y]
         (ex_leeching (ex_pending [(peer_PeerID ex_peer_x, ''h1'')] 1))
       = ex_reached (ex_pending [(peer_PeerID ex_peer_x, ''h1''), (peer_PeerID ex_peer_y, ''h1'')] 0)
           [Logf InfoLevel ''Cannot add pending conn: %s, skipping'' errAlreadyPending,
            ex_dial ex_peer_y]
   \<and> announceResponse_arrives ex_env ''h1'' ex_control [ex_peer_x]
         (ex_started (ex_leeching ex_connState))
       = Some (ex_reached (ex_pending [(peer_PeerID ex_peer_x, ''h1'')] 1) [ex_dial ex_peer_x])
   \<and> NewPeerID ex_env (peer_PeerID ex_peer_y) = Inr (peer_PeerID ex_peer_y)
   \<and> peer_PeerID ex_peer_y \<noteq> peerID (ex_leeching ex_connState)
   \<and> AddPending ex_env (peer_PeerID ex_peer_y) ''h1''
         (connState (ex_reached (ex_pending [(peer_PeerID ex_peer_x, ''h1'')] 1) [ex_dial ex_peer_x]))
       = (None, ex_pending [(peer_PeerID ex_peer_x, ''h1''), (peer_PeerID ex_peer_y, ''h1'')] 0)
   \<and> announceResponseEvent_Apply ex_env ''h1'' [ex_peer_x, ex_peer_y]
         (ex_leeching ex_connState)
       = ex_reached (ex_pending [(peer_PeerID ex_peer_x, ''h1''), (peer_PeerID ex_peer_y, ''h1'')] 0)
           [ex_dial ex_peer_x, ex_dial ex_peer_y]"
  using
    announceResponse_AddPending_outcomes
      [where s = "ex_leeching ex_connState" and h = "''h1''" and ctrl = ex_control
         and env = ex_env and pre = "[ex_peer_x, ex_peer_y]"
         and ?s1.0 = "ex_reached (ex_pending [(peer_PeerID ex_peer_x, ''h1''), (peer_PeerID ex_peer_y, ''h1'')] 0)
            [ex_dial ex_peer_x, ex_dial ex_peer_y]"
         and p = ex_peer_z and pid = "peer_PeerID ex_peer_z" and r = "Some errTorrentAtCapacity"
         and cs' = "ex_pending [(peer_PeerID ex_peer_x, ''h1''), (peer_PeerID ex_peer_y, ''h1'')] 0"
         and post = "[ex_peer_x]"]
    announceResponse_AddPending_outcomes
      [where s = "ex_leeching (ex_pending [(peer_PeerID ex_peer_x, ''h1'')] 1)" and h = "''h1''"
         and ctrl = ex_control and env = ex_env and pre = "[]"
         and ?s1.0 = "ex_reached (ex_pending [(peer_PeerID ex_peer_x, ''h1'')] 1) []"
         and p = ex_peer_x and pid = "peer_PeerID ex_peer_x" and r = "Some errAlreadyPending"
         and cs' = "ex_pending [(peer_PeerID ex_peer_x, ''h1'')] 1" and post = "[ex_peer_y]"]
    announceResponse_AddPending_outcomes
      [where s = "ex_leeching ex_connState" and h = "''h1''" and ctrl = ex_control
         and env = ex_env and pre = "[ex_peer_x]"
         and ?s1.0 = "ex_reached (ex_pending [(peer_PeerID ex_peer_x, ''h1'')] 1) [ex_dial ex_peer_x]"
         and p = ex_peer_y and pid = "peer_PeerID ex_peer_y" and r = None
         and cs' = "ex_pending [(peer_PeerID ex_peer_x, ''h1''), (peer_PeerID ex_peer_y, ''h1'')] 0"
         and post = "[]"]
  by (simp add: ex_defs emit_def)

lemma announceResponse_peers_skip_self:
  assumes "NewPeerID env (peer_PeerID x) = Inr (peerID s)"
  shows "announceResponse_peers env h ctrl (pre @ x # post) s =
         announceResponse_peers env h ctrl (pre @ post) s"
  using assms
  by (induction pre arbitrary: s)
     (auto simp: emit_simps split: sum.splits prod.splits option.splits)

lemma announceResponse_peers_filter_self:
  assumes "peerID s = me"
  shows "announceResponse_peers env h ctrl
           (filter (\<lambda>p. NewPeerID env (peer_PeerID p) \<noteq> Inr me) ps) s =
         announceResponse_peers env h ctrl ps s"
  using assms
  by (induction ps arbitrary: s)
     (auto simp: emit_simps split: sum.splits prod.splits option.splits)

text \<open>
  Claim C7. When an announceResponse event is applied with a peer list in which an
  entry \<open>x\<close> has the scheduler's own peer identifier, wherever it stands in the list
  (after any peers \<open>pre\<close>, before any peers \<open>post\<close>), that entry is passed over with
  no trace: the event does exactly what it does on the list without the entry, so no
  \<open>AddPending\<close> is attempted and no dial spawned for it. The same holds for all such
  entries at once: the event does on a list what it does on the list without them.
  For the two lists of the scheduler itself and one peer \<open>y\<close> that \<open>AddPending\<close>
  admits, in either order and with a control for the torrent, exactly one dial is
  spawned, for \<open>y\<close>, and the connection state is the one the admission of \<open>y\<close> returns.
\<close>

theorem announceResponse_skips_self:
  assumes "NewPeerID env (peer_PeerID x) = Inr (peerID s)"
  shows "announceResponseEvent_Apply env h (pre @ x # post) s =
           announceResponseEvent_Apply env h (pre @ post) s
    \<and> announceResponseEvent_Apply env h
         (filter (\<lambda>p. NewPeerID env (peer_PeerID p) \<noteq> Inr (peerID s)) ps) s =
       announceResponseEvent_Apply env h ps s
    \<and> (map_of (torrentControls s) h = Some ctrl \<and>
       NewPeerID env (peer_PeerID y) = Inr pid \<and> pid \<noteq> peerID s \<and>
       AddPending env pid h (connState s) = (None, cs') \<longrightarrow>
         dials (effects (announceResponseEvent_Apply env h [x, y] s)) =
           dials (effects s) @ [(pid, peer_IP y, peer_Port y, Torrent (Dispatcher ctrl))]
         \<and> connState (announceResponseEvent_Apply env h [x, y] s) = cs'
         \<and> dials (effects (announceResponseEvent_Apply env h [y, x] s)) =
           dials (effects s) @ [(pid, peer_IP y, peer_Port y, Torrent (Dispatcher ctrl))]
         \<and> connState (announceResponseEvent_Apply env h [y, x] s) = cs')"
proof (intro conjI impI)
  show "announceResponseEvent_Apply env h (pre @ x # post) s =
           announceResponseEvent_Apply env h (pre @ post) s"
    using assms
    by (simp add: announceResponseEvent_Apply_def Let_def emit_simps
          announceResponse_peers_skip_self split: option.splits)
  show "announceResponseEvent_Apply env h
         (filter (\<lambda>p. NewPeerID env (peer_PeerID p) \<noteq> Inr (peerID s)) ps) s =
       announceResponseEvent_Apply env h ps s"
    by (simp add: announceResponseEvent_Apply_def Let_def emit_simps
          announceResponse_peers_filter_self split: option.splits)
next
  assume a: "map_of (torrentControls s) h = Some ctrl \<and>
       NewPeerID env (peer_PeerID y) = Inr pid \<and> pid \<noteq> peerID s \<and>
       AddPending env pid h (connState s) = (None, cs')"
  with assms
  show "dials (effects (announceResponseEvent_Apply env h [x, y] s)) =
           dials (effects s) @ [(pid, peer_IP y, peer_Port y, Torrent (Dispatcher ctrl))]"
    and "connState (announceResponseEvent_Apply env h [x, y] s) = cs'"
    and "dials (effects (announceResponseEvent_Apply env h [y, x] s)) =
           dials (effects s) @ [(pid, peer_IP y, peer_Port y, Torrent (Dispatcher ctrl))]"
    and "connState (announceResponseEvent_Apply env h [y, x] s) = cs'"
    by (simp_all add: announceResponseEvent_Apply_def Let_def emit_simps dials_append)
qed

text \<open>
  On the collaborators of the specification, with a control for \<open>h1\<close>: the lists
  \<open>[self, y]\<close> and \<open>[y, self]\<close> both end in the state that the list \<open>[y]\<close> ends in, with
  the one dial, for \<open>y\<close>.
\<close>

theorem announceResponse_skips_self_witness:
  "NewPeerID ex_env (peer_PeerID ex_peer_self) = Inr (peerID (ex_leeching ex_connState))
   \<and> map_of (torrentControls (ex_leeching ex_connState)) ''h1'' = Some ex_control
   \<and> NewPeerID ex_env (peer_PeerID ex_peer_y) = Inr ''peer-yyyy-0000000002''
   \<and> ''peer-yyyy-0000000002'' \<noteq> peerID (ex_leeching ex_connState)
   \<and> AddPending ex_env ''peer-yyyy-0000000002'' ''h1'' (connState (ex_leeching ex_connState))
       = (None, ex_pending [(''peer-yyyy-0000000002'', ''h1'')] 1)
   \<and> announceResponseEvent_Apply ex_env ''h1'' [ex_peer_self, ex_peer_y]
         (ex_leeching ex_connState)
       = announceResponseEvent_Apply ex_env ''h1'' [ex_peer_y] (ex_leeching ex_connState)
   \<and> announceResponseEvent_Apply ex_env ''h1'' [ex_peer_y, ex_peer_self]
         (ex_leeching ex_connState)
       = announceResponseEvent_Apply ex_env ''h1'' [ex_peer_y] (ex_leeching ex_connState)
   \<and> dials (effects (announceResponseEvent_Apply ex_env ''h1'' [ex_peer_self, ex_peer_y]
         (ex_leeching ex_connState)))
       = [(''peer-yyyy-0000000002'', ''10.0.0.3'', 6883, ex_torrent)]
   \<and> dials (effects (announceResponseEvent_Apply ex_env ''h1'' [ex_peer_y, ex_peer_self]
         (ex_leeching ex_connState)))
       = [(''peer-yyyy-0000000002'', ''10.0.0.3'', 6883, ex_torrent)]
   \<and> connState (announceResponseEvent_Apply ex_env ''h1'' [ex_peer_y, ex_peer_self]
         (ex_leeching ex_connState))
       = ex_pending [(''peer-yyyy-0000000002'', ''h1'')] 1"
  using
    announceResponse_skips_self
      [where env = ex_env and x = ex_peer_self and s = "ex_leeching ex_connState"
         and h = "''h1''" and pre = "[]" and post = "[ex_peer_y]" and ps = "[]"
         and ctrl = ex_control and y = ex_peer_y and pid = "''peer-yyyy-0000000002''"
         and cs' = "ex_pending [(''peer-yyyy-0000000002'', ''h1'')] 1"]
    announceResponse_skips_self
      [where env = ex_env and x = ex_peer_self and s = "ex_leeching ex_connState"
         and h = "''h1''" and pre = "[ex_peer_y]" and post = "[]" and ps = "[]"
         and ctrl = ex_control and y = ex_peer_y and pid = "''peer-yyyy-0000000002''"
         and cs' = "ex_pending [(''peer-yyyy-0000000002'', ''h1'')] 1"]
  by (simp add: ex_defs emit_def announceResponseEvent_Apply_def Let_def)

subsection \<open>preemptionTickEvent\<close>

lemma frozen_down: "frozen (Suc n) now clk \<Longrightarrow> frozen n now clk"
  by (induction n arbitrary: clk) simp_all

lemma conns_closed_frozen:
  assumes "frozen (2 * length cs) now clk"
  shows "conns_closed cfg clk cs =
     filter (\<lambda>c. time_Sub now
                    (max (conn_CreatedAt c)
                       (max (conn_LastGoodPieceReceived c) (conn_LastPieceSent c)))
                  > IdleConnTTL cfg
                \<or> time_Sub now (conn_CreatedAt c) > ConnTTL cfg) cs"
  using assms
proof (induction cs arbitrary: clk)
  case Nil
  show ?case by simp
next
  case (Cons c cs)
  from Cons.prems have h1: "shd clk = now" and h2: "shd (stl clk) = now"
    and f2: "frozen (2 * length cs) now (stl (stl clk))"
    and f1: "frozen (Suc (2 * length cs)) now (stl clk)"
    by simp_all
  from f1 have f1': "frozen (2 * length cs) now (stl clk)" by (rule frozen_down)
  show ?case using Cons.IH [OF f1'] Cons.IH [OF f2] h1 h2 by simp
qed

lemma conns_clock_frozen:
  assumes "frozen (2 * length cs + m) now clk"
  shows "frozen m now (conns_clock cfg clk cs)"
  using assms
proof (induction cs arbitrary: clk)
  case Nil
  then show ?case by simp
next
  case (Cons c cs)
  from Cons.prems have f2: "frozen (2 * length cs + m) now (stl (stl clk))"
    and f1: "frozen (Suc (2 * length cs + m)) now (stl clk)"
    by simp_all
  from f1 have f1': "frozen (2 * length cs + m) now (stl clk)" by (rule frozen_down)
  show ?case using Cons.IH [OF f1'] Cons.IH [OF f2] by simp
qed

lemma seeders_kept_frozen:
  assumes "frozen (length al) now clk"
  shows "seeders_kept cfg clk al =
     filter (\<lambda>(h, ctrl).
                \<not> (Complete ctrl \<and> Empty (Dispatcher ctrl) \<and>
                   time_Sub now
                     (max (dispatcher_CreatedAt (Dispatcher ctrl))
                        (LastConnRemoved (Dispatcher ctrl)))
                   > IdleSeederTTL cfg)) al"
  using assms
proof (induction al arbitrary: clk)
  case Nil
  show ?case by simp
next
  case (Cons e al)
  obtain h ctrl where e: "e = (h, ctrl)" by (cases e)
  from Cons.prems have h1: "shd clk = now" and f1: "frozen (length al) now (stl clk)"
    by simp_all
  from Cons.prems have f0: "frozen (length al) now clk"
    by (simp add: frozen_down)
  show ?case using Cons.IH [OF f1] Cons.IH [OF f0] h1 by (simp add: e)
qed

lemma seeders_kept_keys: "fst ` set (seeders_kept cfg clk al) \<subseteq> fst ` set al"
proof (induction al arbitrary: clk)
  case Nil
  show ?case by simp
next
  case (Cons e al)
  obtain h ctrl where e: "e = (h, ctrl)" by (cases e)
  show ?case using Cons.IH [of clk] Cons.IH [of "stl clk"] by (auto simp: e)
qed

lemma seeders_kept_distinct:
  "distinct (map fst al) \<Longrightarrow> distinct (map fst (seeders_kept cfg clk al))"
proof (induction al arbitrary: clk)
  case Nil
  show ?case by simp
next
  case (Cons e al)
  obtain h ctrl where e: "e = (h, ctrl)" by (cases e)
  from Cons.prems have d: "distinct (map fst al)" and n: "h \<notin> fst ` set al"
    by (auto simp: e)
  show ?case
    using Cons.IH [OF d, of clk] Cons.IH [OF d, of "stl clk"] n
      seeders_kept_keys [of cfg clk al] seeders_kept_keys [of cfg "stl clk" al]
    by (auto simp: e)
qed

text \<open>
  The first loop changes the clock and the effects only; it closes what the description
  says and leaves the clock the description says.
\<close>

lemma preempt_conns_result:
  "config (preempt_conns cs s) = config s
   \<and> connState (preempt_conns cs s) = connState s
   \<and> announceQueue (preempt_conns cs s) = announceQueue s
   \<and> torrentControls (preempt_conns cs s) = torrentControls s
   \<and> clock (preempt_conns cs s) = conns_clock (config s) (clock s) cs
   \<and> closes (effects (preempt_conns cs s)) =
       closes (effects s) @ conns_closed (config s) (clock s) cs"
proof (induction cs arbitrary: s)
  case Nil
  show ?case by simp
next
  case (Cons c cs)
  show ?case
    by (simp add: Cons.IH clock_Now_def emit_simps Let_def MostRecent_max closes_append
          del: MostRecent.simps)
qed

lemma preempt_torrents_closes:
  "closes (effects (preempt_torrents rest s)) = closes (effects s)"
proof (induction rest arbitrary: s)
  case Nil
  show ?case by simp
next
  case (Cons e rest)
  obtain h ctrl where e: "e = (h, ctrl)" by (cases e)
  show ?case
    by (simp add: e Cons.IH clock_Now_def emit_simps Let_def closes_append)
qed

text \<open>
  The second loop, when the keys of the map are distinct and the entries \<open>kept\<close> have
  been visited and kept: it keeps of the entries \<open>rest\<close> what the description says.
\<close>

lemma preempt_torrents_kept:
  assumes "distinct (map fst (kept @ rest))" and "torrentControls s = kept @ rest"
  shows "torrentControls (preempt_torrents rest s) =
           kept @ seeders_kept (config s) (clock s) rest"
  using assms
proof (induction rest arbitrary: kept s)
  case Nil
  then show ?case by simp
next
  case (Cons e rest)
  obtain h ctrl where e: "e = (h, ctrl)" by (cases e)
  from Cons.prems(1) have hk: "h \<notin> fst ` set kept" and hr: "h \<notin> fst ` set rest"
    and d1: "distinct (map fst (kept @ rest))"
    and d2: "distinct (map fst ((kept @ [(h, ctrl)]) @ rest))"
    by (auto simp: e)
  have del: "AList.delete h (kept @ (h, ctrl) # rest) = kept @ rest"
  proof -
    have "AList.delete h (kept @ (h, ctrl) # rest)
          = AList.delete h kept @ AList.delete h ((h, ctrl) # rest)"
      by (simp add: AList.delete_eq)
    then show ?thesis
      using AList.delete_id [OF hk] AList.delete_id [OF hr] by simp
  qed
  let ?idle = "time_Sub (shd (clock s))
                 (max (dispatcher_CreatedAt (Dispatcher ctrl))
                    (LastConnRemoved (Dispatcher ctrl))) > IdleSeederTTL (config s)"
  show ?case
  proof (cases "Complete ctrl \<and> Empty (Dispatcher ctrl)")
    case False
    have "torrentControls s = (kept @ [(h, ctrl)]) @ rest"
      using Cons.prems(2) by (simp add: e)
    from Cons.IH [OF d2 this] False show ?thesis by (auto simp: e)
  next
    case True
    show ?thesis
    proof (cases ?idle)
      case True
      have tc: "torrentControls
                 ((emit (Log InfoLevel ''Removing idle torrent'')
                     (s\<lparr>clock := stl (clock s)\<rparr>))
                    \<lparr>torrentControls := AList.delete h (torrentControls s)\<rparr>) = kept @ rest"
        using Cons.prems(2) del by (simp add: e)
      from Cons.IH [OF d1 tc] True \<open>Complete ctrl \<and> Empty (Dispatcher ctrl)\<close>
      show ?thesis
        by (simp add: e clock_Now_def emit_simps Let_def MostRecent_max
              del: MostRecent.simps)
    next
      case False
      have tc: "torrentControls (s\<lparr>clock := stl (clock s)\<rparr>) = (kept @ [(h, ctrl)]) @ rest"
        using Cons.prems(2) by (simp add: e)
      from Cons.IH [OF d2 tc] False \<open>Complete ctrl \<and> Empty (Dispatcher ctrl)\<close>
      show ?thesis
        by (simp add: e clock_Now_def emit_simps Let_def MostRecent_max
              del: MostRecent.simps)
    qed
  qed
qed

lemma preemptionTick_torrentControls:
  assumes "distinct (map fst (torrentControls s))"
  shows "torrentControls (preemptionTickEvent_Apply env s) =
           seeders_kept (config s)
             (conns_clock (config s) (clock s) (ActiveConns env (connState s)))
             (torrentControls s)"
proof -
  let ?s1 = "emit (Log DebugLevel ''Applying preemption tick event'') s"
  let ?s2 = "preempt_conns (ActiveConns env (connState ?s1)) ?s1"
  have tc: "torrentControls ?s2 = [] @ torrentControls s"
    using preempt_conns_result [of "ActiveConns env (connState ?s1)" ?s1]
    by (simp add: emit_simps)
  have d: "distinct (map fst ([] @ torrentControls s))" using assms by simp
  from preempt_torrents_kept [OF d tc]
    preempt_conns_result [of "ActiveConns env (connState ?s1)" ?s1]
  show ?thesis
    by (simp add: preemptionTickEvent_Apply_def Let_def emit_simps)
qed

lemma preemptionTick_closes_readings:
  "closes (effects (preemptionTickEvent_Apply env s)) =
     closes (effects s) @
     conns_closed (config s) (clock s) (ActiveConns env (connState s))"
  using preempt_conns_result
    [of "ActiveConns env (connState s)"
        "emit (Log DebugLevel ''Applying preemption tick event'') s"]
  by (simp add: preemptionTickEvent_Apply_def Let_def emit_simps preempt_torrents_closes
        closes_append)

lemma map_of_filter_values:
  assumes "distinct (map fst al)"
  shows "map_of (filter (\<lambda>(k, v). Q v) al) k =
           (case map_of al k of None \<Rightarrow> None | Some v \<Rightarrow> if Q v then Some v else None)"
  using assms
proof (induction al)
  case Nil
  show ?case by simp
next
  case (Cons e al)
  obtain k' v' where e: "e = (k', v')" by (cases e)
  from Cons.prems have notin: "k' \<notin> fst ` set al" and d: "distinct (map fst al)"
    by (auto simp: e)
  from notin have none: "map_of al k' = None"
    by (simp add: map_of_eq_None_iff)
  show ?case using Cons.IH [OF d] none by (cases "k = k'") (auto simp: e)
qed

text \<open>
  Claim C5 (amended). Applying a preemptionTick event closes exactly the active
  connections \<open>c\<close> for which either \<open>t - max(c.CreatedAt, c.LastGoodPieceReceived,
  c.LastPieceSent)\<close> exceeds \<open>IdleConnTTL\<close>, or that fails and \<open>t' - c.CreatedAt\<close>
  exceeds \<open>ConnTTL\<close>, where \<open>t\<close> and \<open>t'\<close> are what the clock reads when each
  comparison is made: the event reads the clock anew for the first comparison of every
  connection and, when that fails, once more for the second. The connections of
  \<open>ActiveConns()\<close> are tested in the order of the snapshot, and no other connection is
  closed. When the clock reads the same time \<open>now\<close> at every reading of the loop (at
  most two for each connection), the connections closed are exactly those of the
  condition with \<open>now\<close> for \<open>t\<close> and \<open>t'\<close>. The difference of two times is \<open>Time.Sub\<close>.
\<close>

theorem preemptionTick_closes:
  "closes (effects (preemptionTickEvent_Apply env s)) =
     closes (effects s) @
     conns_closed (config s) (clock s) (ActiveConns env (connState s))
   \<and> (frozen (2 * length (ActiveConns env (connState s))) now (clock s) \<longrightarrow>
        closes (effects (preemptionTickEvent_Apply env s)) =
          closes (effects s) @
          filter
            (\<lambda>c. time_Sub now
                 (max (conn_CreatedAt c)
                    (max (conn_LastGoodPieceReceived c) (conn_LastPieceSent c)))
               > IdleConnTTL (config s)
             \<or> (\<not> time_Sub now
                     (max (conn_CreatedAt c)
                        (max (conn_LastGoodPieceReceived c) (conn_LastPieceSent c)))
                   > IdleConnTTL (config s)
                \<and> time_Sub now (conn_CreatedAt c) > ConnTTL (config s)))
            (ActiveConns env (connState s)))"
proof (intro conjI impI)
  show "closes (effects (preemptionTickEvent_Apply env s)) =
     closes (effects s) @
     conns_closed (config s) (clock s) (ActiveConns env (connState s))"
    by (rule preemptionTick_closes_readings)
next
  assume f: "frozen (2 * length (ActiveConns env (connState s))) now (clock s)"
  have "filter
       (\<lambda>c. time_Sub now
               (max (conn_CreatedAt c)
                  (max (conn_LastGoodPieceReceived c) (conn_LastPieceSent c)))
             > IdleConnTTL (config s)
           \<or> time_Sub now (conn_CreatedAt c) > ConnTTL (config s))
       (ActiveConns env (connState s))
     = filter
            (\<lambda>c. time_Sub now
                 (max (conn_CreatedAt c)
                    (max (conn_LastGoodPieceReceived c) (conn_LastPieceSent c)))
               > IdleConnTTL (config s)
             \<or> (\<not> time_Sub now
                     (max (conn_CreatedAt c)
                        (max (conn_LastGoodPieceReceived c) (conn_LastPieceSent c)))
                   > IdleConnTTL (config s)
                \<and> time_Sub now (conn_CreatedAt c) > ConnTTL (config s)))
            (ActiveConns env (connState s))"
    by (rule filter_cong) auto
  then show "closes (effects (preemptionTickEvent_Apply env s)) =
          closes (effects s) @
          filter
            (\<lambda>c. time_Sub now
                 (max (conn_CreatedAt c)
                    (max (conn_LastGoodPieceReceived c) (conn_LastPieceSent c)))
               > IdleConnTTL (config s)
             \<or> (\<not> time_Sub now
                     (max (conn_CreatedAt c)
                        (max (conn_LastGoodPieceReceived c) (conn_LastPieceSent c)))
                   > IdleConnTTL (config s)
                \<and> time_Sub now (conn_CreatedAt c) > ConnTTL (config s)))
            (ActiveConns env (connState s))"
    using conns_closed_frozen [OF f, of "config s"]
    by (simp add: preemptionTick_closes_readings)
qed

text \<open>
  With the clock standing at 1000, an idle limit of 10 and an age limit of 100: the
  connection of \<open>a\<close>, created at 980 with its last piece at 985, is idle and closed;
  that of \<open>b\<close>, created at 800 with its last piece at 995, is not idle but too old, and
  closed; that of \<open>c\<close>, created at 995, stays.
\<close>

theorem preemptionTick_closes_witness:
  "frozen (2 * length (ActiveConns ex_env (connState (ex_leeching (ex_connState
         \<lparr>active := [ex_conn ''a'' 980 985, ex_conn ''b'' 800 995, ex_conn ''c'' 995 0],
          capacity := [(''h1'', 0)]\<rparr>))))) 1000 (clock (ex_leeching (ex_connState
         \<lparr>active := [ex_conn ''a'' 980 985, ex_conn ''b'' 800 995, ex_conn ''c'' 995 0],
          capacity := [(''h1'', 0)]\<rparr>)))
   \<and> closes (effects (preemptionTickEvent_Apply ex_env (ex_leeching (ex_connState
         \<lparr>active := [ex_conn ''a'' 980 985, ex_conn ''b'' 800 995, ex_conn ''c'' 995 0],
          capacity := [(''h1'', 0)]\<rparr>))))
     = [ex_conn ''a'' 980 985, ex_conn ''b'' 800 995]"
  using preemptionTick_closes [where env = ex_env and now = 1000 and s = "(ex_leeching (ex_connState
         \<lparr>active := [ex_conn ''a'' 980 985, ex_conn ''b'' 800 995, ex_conn ''c'' 995 0],
          capacity := [(''h1'', 0)]\<rparr>))"]
  by (simp add: ex_defs time_Sub_def maxDuration_def minDuration_def eval_nat_numeral)

text \<open>
  The claim as it was stated, with one time \<open>now\<close> for the whole tick, fails when the
  clock advances: the two connections have the same times, so every \<open>now\<close> closes both
  or neither, and the tick closes the second only (it is tested at 1001, the first at
  1000).
\<close>

theorem preemptionTick_closes_one_of_two:
  "closes (effects (preemptionTickEvent_Apply ex_env ex_two_conns))
     = [ex_conn ''b'' 990 990]
   \<and> \<not> (\<exists>now. closes (effects (preemptionTickEvent_Apply ex_env ex_two_conns))
           = closes (effects ex_two_conns) @
             filter
               (\<lambda>c. time_Sub now
                 (max (conn_CreatedAt c)
                    (max (conn_LastGoodPieceReceived c) (conn_LastPieceSent c)))
               > IdleConnTTL (config ex_two_conns)
             \<or> (\<not> time_Sub now
                     (max (conn_CreatedAt c)
                        (max (conn_LastGoodPieceReceived c) (conn_LastPieceSent c)))
                   > IdleConnTTL (config ex_two_conns)
                \<and> time_Sub now (conn_CreatedAt c) > ConnTTL (config ex_two_conns)))
               (ActiveConns ex_env (connState ex_two_conns)))"
proof -
  have ev: "closes (effects (preemptionTickEvent_Apply ex_env ex_two_conns))
     = [ex_conn ''b'' 990 990]"
    by (simp add: preemptionTickEvent_Apply_def Let_def clock_Now_def emit_def ex_defs
          time_Sub_def maxDuration_def minDuration_def)
  show ?thesis
    unfolding ev
    by (auto simp: ex_defs)
qed

text \<open>
  Claim C6 (amended). Applying a preemptionTick event removes an entry \<open>(h, ctrl)\<close>
  from \<open>torrentControls\<close> if and only if \<open>ctrl.Complete\<close> is true, the dispatcher is
  empty and \<open>t - max(dispatcher.CreatedAt, dispatcher.LastConnRemoved)\<close> exceeds
  \<open>IdleSeederTTL\<close>, where \<open>t\<close> is what the clock reads when the comparison is made: the
  event reads the clock anew for every control that is complete and empty, after the
  readings of the loop over the connections. Every other entry stays, with its control
  unchanged. When the clock reads the same time \<open>now\<close> at every reading of the tick (at
  most two for each active connection and one for each control), the entries removed
  are exactly those of the condition with \<open>now\<close> for \<open>t\<close>. The keys of
  \<open>torrentControls\<close>, being those of a map, are distinct.
\<close>

theorem preemptionTick_removes_idle_seeders:
  assumes "distinct (map fst (torrentControls s))"
  shows "torrentControls (preemptionTickEvent_Apply env s) =
           seeders_kept (config s)
             (conns_clock (config s) (clock s) (ActiveConns env (connState s)))
             (torrentControls s)
       \<and> (frozen (2 * length (ActiveConns env (connState s)) + length (torrentControls s))
             now (clock s) \<longrightarrow>
            torrentControls (preemptionTickEvent_Apply env s) =
              filter
                (\<lambda>(h, ctrl).
                  \<not> (Complete ctrl \<and> Empty (Dispatcher ctrl) \<and>
                     time_Sub now
                       (max (dispatcher_CreatedAt (Dispatcher ctrl))
                          (LastConnRemoved (Dispatcher ctrl)))
                     > IdleSeederTTL (config s)))
                (torrentControls s)
            \<and> map_of (torrentControls (preemptionTickEvent_Apply env s)) h =
                (case map_of (torrentControls s) h of
                   None \<Rightarrow> None
                 | Some ctrl \<Rightarrow>
                     if Complete ctrl \<and> Empty (Dispatcher ctrl) \<and>
                        time_Sub now
                          (max (dispatcher_CreatedAt (Dispatcher ctrl))
                             (LastConnRemoved (Dispatcher ctrl)))
                        > IdleSeederTTL (config s)
                     then None else Some ctrl))"
proof (intro conjI impI)
  show "torrentControls (preemptionTickEvent_Apply env s) =
           seeders_kept (config s)
             (conns_clock (config s) (clock s) (ActiveConns env (connState s)))
             (torrentControls s)"
    using assms by (rule preemptionTick_torrentControls)
next
  assume f: "frozen (2 * length (ActiveConns env (connState s)) + length (torrentControls s))
             now (clock s)"
  have f': "frozen (length (torrentControls s)) now
              (conns_clock (config s) (clock s) (ActiveConns env (connState s)))"
    using f by (rule conns_clock_frozen)
  show eq: "torrentControls (preemptionTickEvent_Apply env s) =
              filter
                (\<lambda>(h, ctrl).
                  \<not> (Complete ctrl \<and> Empty (Dispatcher ctrl) \<and>
                     time_Sub now
                       (max (dispatcher_CreatedAt (Dispatcher ctrl))
                          (LastConnRemoved (Dispatcher ctrl)))
                     > IdleSeederTTL (config s)))
                (torrentControls s)"
    using seeders_kept_frozen [OF f', of "config s"]
    by (simp add: preemptionTick_torrentControls [OF assms])
  show "map_of (torrentControls (preemptionTickEvent_Apply env s)) h =
                (case map_of (torrentControls s) h of
                   None \<Rightarrow> None
                 | Some ctrl \<Rightarrow>
                     if Complete ctrl \<and> Empty (Dispatcher ctrl) \<and>
                        time_Sub now
                          (max (dispatcher_CreatedAt (Dispatcher ctrl))
                             (LastConnRemoved (Dispatcher ctrl)))
                        > IdleSeederTTL (config s)
                     then None else Some ctrl)"
    using eq map_of_filter_values [OF assms,
        of "\<lambda>ctrl. \<not> (Complete ctrl \<and> Empty (Dispatcher ctrl) \<and>
                   time_Sub now
                     (max (dispatcher_CreatedAt (Dispatcher ctrl))
                        (LastConnRemoved (Dispatcher ctrl)))
                   > IdleSeederTTL (config s))" h]
    by (simp split: option.splits)
qed

text \<open>
  With the clock standing at 1000 and a seeder limit of 20: \<open>h1\<close>, complete and empty
  since 950, is removed; \<open>h2\<close>, complete and empty since 990, \<open>h3\<close>, not complete, and
  \<open>h4\<close>, complete but not empty, stay.
\<close>

theorem preemptionTick_removes_idle_seeders_witness:
  "distinct (map fst (torrentControls (ex_scheduler\<lparr>torrentControls :=
         [(''h1'', ex_control\<lparr>Complete := True\<rparr>),
          (''h2'', ex_control\<lparr>Dispatcher := ex_dispatcher\<lparr>LastConnRemoved := 990\<rparr>,
                               Complete := True\<rparr>),
          (''h3'', ex_control),
          (''h4'', ex_control\<lparr>Dispatcher := ex_dispatcher\<lparr>Empty := False\<rparr>,
                               Complete := True\<rparr>)]\<rparr>)))
   \<and> frozen (2 * length (ActiveConns ex_env (connState (ex_scheduler\<lparr>torrentControls :=
         [(''h1'', ex_control\<lparr>Complete := True\<rparr>),
          (''h2'', ex_control\<lparr>Dispatcher := ex_dispatcher\<lparr>LastConnRemoved := 990\<rparr>,
                               Complete := True\<rparr>),
          (''h3'', ex_control),
          (''h4'', ex_control\<lparr>Dispatcher := ex_dispatcher\<lparr>Empty := False\<rparr>,
                               Complete := True\<rparr>)]\<rparr>))) + length (torrentControls (ex_scheduler\<lparr>torrentControls :=
         [(''h1'', ex_control\<lparr>Complete := True\<rparr>),
          (''h2'', ex_control\<lparr>Dispatcher := ex_dispatcher\<lparr>LastConnRemoved := 990\<rparr>,
                               Complete := True\<rparr>),
          (''h3'', ex_control),
          (''h4'', ex_control\<lparr>Dispatcher := ex_dispatcher\<lparr>Empty := False\<rparr>,
                               Complete := True\<rparr>)]\<rparr>)))
       1000 (clock (ex_scheduler\<lparr>torrentControls :=
         [(''h1'', ex_control\<lparr>Complete := True\<rparr>),
          (''h2'', ex_control\<lparr>Dispatcher := ex_dispatcher\<lparr>LastConnRemoved := 990\<rparr>,
                               Complete := True\<rparr>),
          (''h3'', ex_control),
          (''h4'', ex_control\<lparr>Dispatcher := ex_dispatcher\<lparr>Empty := False\<rparr>,
                               Complete := True\<rparr>)]\<rparr>))
   \<and> torrentControls (preemptionTickEvent_Apply ex_env (ex_scheduler\<lparr>torrentControls :=
         [(''h1'', ex_control\<lparr>Complete := True\<rparr>),
          (''h2'', ex_control\<lparr>Dispatcher := ex_dispatcher\<lparr>LastConnRemoved := 990\<rparr>,
                               Complete := True\<rparr>),
          (''h3'', ex_control),
          (''h4'', ex_control\<lparr>Dispatcher := ex_dispatcher\<lparr>Empty := False\<rparr>,
                               Complete := True\<rparr>)]\<rparr>))
     = [(''h2'', ex_control\<lparr>Dispatcher := ex_dispatcher\<lparr>LastConnRemoved := 990\<rparr>,
                              Complete := True\<rparr>),
        (''h3'', ex_control),
        (''h4'', ex_control\<lparr>Dispatcher := ex_dispatcher\<lparr>Empty := False\<rparr>,
                              Complete := True\<rparr>)]
   \<and> map_of (torrentControls (preemptionTickEvent_Apply ex_env (ex_scheduler\<lparr>torrentControls :=
         [(''h1'', ex_control\<lparr>Complete := True\<rparr>),
          (''h2'', ex_control\<lparr>Dispatcher := ex_dispatcher\<lparr>LastConnRemoved := 990\<rparr>,
                               Complete := True\<rparr>),
          (''h3'', ex_control),
          (''h4'', ex_control\<lparr>Dispatcher := ex_dispatcher\<lparr>Empty := False\<rparr>,
                               Complete := True\<rparr>)]\<rparr>))) ''h1'' = None"
  using preemptionTick_removes_idle_seeders
    [where env = ex_env and now = 1000 and h = "''h1''" and s = "(ex_scheduler\<lparr>torrentControls :=
         [(''h1'', ex_control\<lparr>Complete := True\<rparr>),
          (''h2'', ex_control\<lparr>Dispatcher := ex_dispatcher\<lparr>LastConnRemoved := 990\<rparr>,
                               Complete := True\<rparr>),
          (''h3'', ex_control),
          (''h4'', ex_control\<lparr>Dispatcher := ex_dispatcher\<lparr>Empty := False\<rparr>,
                               Complete := True\<rparr>)]\<rparr>)"]
  by (simp add: ex_defs time_Sub_def maxDuration_def minDuration_def eval_nat_numeral)

text \<open>
  The claim as it was stated, with one time \<open>now\<close> for the whole tick, fails when the
  clock advances: the two seeders have the same times, so every \<open>now\<close> removes both or
  neither, and the tick removes the second only (it is tested at 1001, the first at
  1000).
\<close>

theorem preemptionTick_removes_one_of_two:
  "distinct (map fst (torrentControls ex_two_seeders))
   \<and> map fst (torrentControls (preemptionTickEvent_Apply ex_env ex_two_seeders)) = [''h1'']
   \<and> \<not> (\<exists>now. torrentControls (preemptionTickEvent_Apply ex_env ex_two_seeders)
           = filter
               (\<lambda>(h, ctrl).
                  \<not> (Complete ctrl \<and> Empty (Dispatcher ctrl) \<and>
                     time_Sub now
                       (max (dispatcher_CreatedAt (Dispatcher ctrl))
                          (LastConnRemoved (Dispatcher ctrl)))
                     > IdleSeederTTL (config ex_two_seeders)))
               (torrentControls ex_two_seeders))"
proof -
  have ev: "torrentControls (preemptionTickEvent_Apply ex_env ex_two_seeders)
     = [(''h1'', \<lparr>Dispatcher = ex_dispatcher\<lparr>LastConnRemoved := 980\<rparr>,
                  Errors = [], Complete = True\<rparr>)]"
    by (simp add: preemptionTickEvent_Apply_def Let_def clock_Now_def emit_def ex_defs
          time_Sub_def maxDuration_def minDuration_def)
  show ?thesis
    unfolding ev
    by (auto simp: ex_defs)
qed

subsection \<open>The keys of torrentControls stay distinct\<close>

lemma announceResponse_peers_torrentControls:
  "torrentControls (announceResponse_peers env h ctrl ps s) = torrentControls s"
  by (induction ps arbitrary: s)
     (auto simp: emit_simps split: sum.splits prod.splits option.splits)

lemma torrentControls_distinct_preserved:
  assumes "distinct (map fst (torrentControls s))"
  shows "distinct (map fst (torrentControls (closedConnEvent_Apply env c s)))"
    and "distinct (map fst (torrentControls (announceResponseEvent_Apply env h peers s)))"
    and "distinct (map fst (torrentControls (newTorrentEvent_Apply env t errc s)))"
    and "distinct (map fst (torrentControls (completedDispatcherEvent_Apply env d s)))"
    and "distinct (map fst (torrentControls (preemptionTickEvent_Apply env s)))"
proof -
  show "distinct (map fst (torrentControls (closedConnEvent_Apply env c s)))"
    using assms
    by (simp add: closedConnEvent_Apply_def emit_def Let_def split: prod.splits option.splits)
  show "distinct (map fst (torrentControls (announceResponseEvent_Apply env h peers s)))"
    using assms
    by (simp add: announceResponseEvent_Apply_def Let_def emit_simps
          announceResponse_peers_torrentControls split: option.splits)
  show "distinct (map fst (torrentControls (newTorrentEvent_Apply env t errc s)))"
  proof (cases "map_of (torrentControls s) (torrent_InfoHash t)")
    case None
    then show ?thesis using assms by (simp add: newTorrent_absent AList.distinct_update)
  next
    case (Some ctrl)
    then show ?thesis using assms
      by (cases "Complete ctrl")
         (simp_all add: newTorrent_complete newTorrent_waiting AList.distinct_update)
  qed
  show "distinct (map fst (torrentControls (completedDispatcherEvent_Apply env d s)))"
    using assms
    by (simp add: completedDispatcherEvent_Apply_def emit_def Let_def send_nil_all_eq
          AList.distinct_update split: option.splits)
  show "distinct (map fst (torrentControls (preemptionTickEvent_Apply env s)))"
    using assms
    by (simp add: preemptionTick_torrentControls seeders_kept_distinct)
qed

end
